theory Spec2Isabelle
  imports Main
begin

section \<open>Python primitives used by the console sources\<close>

text \<open>
  The sources are Python. Lists and strings are indexed by unbounded integers, a
  negative index counts from the end, and an index outside the sequence raises
  \<open>IndexError\<close>. Exceptions are values of the type \<open>py_error\<close>, returned on the
  left of a sum.
\<close>

datatype py_error =
    IndexError | KeyError | TypeError | AttributeError | IOError | UtilRplError | CallbackError

text \<open>
  A key read from the terminal is a Python value of one of two types. Both modules read
  it with \<open>os.read\<close> (or \<open>msvcrt.getch\<close>), which return \<open>bytes\<close>; the tables and the
  literals the key is compared with are \<open>str\<close>. A \<open>bytes\<close> value is never equal to a
  \<open>str\<close> value, so it is in no such table, and adding it to a \<open>str\<close> raises
  \<open>TypeError\<close>.
\<close>

datatype py_key = Str string | Bytes string

definition py_index :: "'a list \<Rightarrow> int \<Rightarrow> int" where
  \<comment> \<open>the position a Python subscript \<open>i\<close> denotes in \<open>xs\<close>, before the range check\<close>
  "py_index xs i = (if i < 0 then int (length xs) + i else i)"

definition py_getitem :: "'a list \<Rightarrow> int \<Rightarrow> py_error + 'a" where
  \<comment> \<open>\<open>xs[i]\<close>\<close>
  "py_getitem xs i =
     (let j = py_index xs i
      in if 0 \<le> j \<and> j < int (length xs) then Inr (xs ! nat j) else Inl IndexError)"

definition py_setitem :: "'a list \<Rightarrow> int \<Rightarrow> 'a \<Rightarrow> py_error + 'a list" where
  \<comment> \<open>\<open>xs[i] = v\<close>\<close>
  "py_setitem xs i v =
     (let j = py_index xs i
      in if 0 \<le> j \<and> j < int (length xs) then Inr (xs[nat j := v]) else Inl IndexError)"

definition py_bound :: "'a list \<Rightarrow> int \<Rightarrow> nat" where
  \<comment> \<open>a slice bound, brought into \<open>0 .. len(xs)\<close> the way Python does\<close>
  "py_bound xs i =
     (if i < 0 then nat (max 0 (int (length xs) + i)) else min (nat i) (length xs))"

definition py_slice :: "'a list \<Rightarrow> int \<Rightarrow> int \<Rightarrow> 'a list" where
  \<comment> \<open>\<open>xs[a:b]\<close>\<close>
  "py_slice xs a b = take (py_bound xs b - py_bound xs a) (drop (py_bound xs a) xs)"

definition py_slice_from :: "'a list \<Rightarrow> int \<Rightarrow> 'a list" where
  \<comment> \<open>\<open>xs[a:]\<close>\<close>
  "py_slice_from xs a = drop (py_bound xs a) xs"

definition py_repeat :: "'a list \<Rightarrow> int \<Rightarrow> 'a list" where
  \<comment> \<open>\<open>xs * n\<close>, empty when \<open>n\<close> is not positive\<close>
  "py_repeat xs n = concat (replicate (nat n) xs)"

fun py_split :: "char \<Rightarrow> string \<Rightarrow> string list" where
  \<comment> \<open>\<open>s.split(c)\<close> for a one-character separator: every occurrence separates\<close>
  "py_split c [] = [[]]"
| "py_split c (x # xs) =
     (if x = c then [] # py_split c xs
      else (case py_split c xs of [] \<Rightarrow> [[x]] | p # ps \<Rightarrow> (x # p) # ps))"

definition py_strip :: "char \<Rightarrow> string \<Rightarrow> string" where
  \<comment> \<open>\<open>s.strip(c)\<close> for a one-character argument\<close>
  "py_strip c s = rev (dropWhile (\<lambda>x. x = c) (rev (dropWhile (\<lambda>x. x = c) s)))"

definition py_find :: "char \<Rightarrow> string \<Rightarrow> int \<Rightarrow> int" where
  \<comment> \<open>\<open>s.find(c, start)\<close>: the first index at or after \<open>start\<close> that holds \<open>c\<close>, or -1\<close>
  "py_find c s start =
     (let k = py_bound s start
      in if start \<le> int (length s) \<and> c \<in> set (drop k s)
         then int (k + length (takeWhile (\<lambda>x. x \<noteq> c) (drop k s)))
         else - 1)"

definition range_down :: "int \<Rightarrow> int \<Rightarrow> int list" where
  \<comment> \<open>\<open>range(a, b, -1)\<close>: a, a - 1, ... down to b + 1\<close>
  "range_down a b = rev [b + 1..a]"

section \<open>The command history (class \<open>_CommandHistory\<close> of console.py)\<close>

record command_history =
  position_h :: int
  commands_h :: "string list"
  max_size :: int

definition init_history :: "int \<Rightarrow> command_history" where
  \<comment> \<open>\<open>_CommandHistory({'max_size': n})\<close>\<close>
  "init_history n = \<lparr>position_h = 0, commands_h = [], max_size = n\<rparr>"

definition add_h :: "string \<Rightarrow> command_history \<Rightarrow> py_error + command_history" where
  \<comment> \<open>\<open>_CommandHistory.add\<close>\<close>
  "add_h cmd h =
     (if int (length (commands_h h)) < max_size h
      then Inr (h\<lparr>commands_h := commands_h h @ [cmd], position_h := 0\<rparr>)
      else if position_h h = 0
      then (case py_setitem (commands_h h) (max_size h - 1) cmd of
              Inl e \<Rightarrow> Inl e
            | Inr cs \<Rightarrow> Inr (h\<lparr>commands_h := cs\<rparr>))
      else (case py_setitem (commands_h h) (position_h h - 1) cmd of
              Inl e \<Rightarrow> Inl e
            | Inr cs \<Rightarrow> Inr (h\<lparr>commands_h := cs\<rparr>)))"

definition next_h :: "command_history \<Rightarrow> py_error + (string \<times> command_history)" where
  \<comment> \<open>\<open>_CommandHistory.__next__\<close>\<close>
  "next_h h =
     (if length (commands_h h) = 0 then Inr ([], h)
      else let h' = (if position_h h = int (length (commands_h h)) - 1
                     then h\<lparr>position_h := 0\<rparr>
                     else h\<lparr>position_h := position_h h + 1\<rparr>)
           in (case py_getitem (commands_h h') (position_h h') of
                 Inl e \<Rightarrow> Inl e
               | Inr c \<Rightarrow> Inr (c, h')))"

definition previous :: "command_history \<Rightarrow> py_error + (string \<times> command_history)" where
  \<comment> \<open>\<open>_CommandHistory.previous\<close>\<close>
  "previous h =
     (if length (commands_h h) = 0 then Inr ([], h)
      else let h' = (if position_h h = 0
                     then h\<lparr>position_h := int (length (commands_h h)) - 1\<rparr>
                     else h\<lparr>position_h := position_h h - 1\<rparr>)
           in (case py_getitem (commands_h h') (position_h h') of
                 Inl e \<Rightarrow> Inl e
               | Inr c \<Rightarrow> Inr (c, h')))"

text \<open>Successive calls: \<open>add\<close> for each command of a list, and \<open>previous\<close> \<open>n\<close> times,
  collecting what it returns. The first exception ends the sequence.\<close>

fun add_all :: "string list \<Rightarrow> command_history \<Rightarrow> py_error + command_history" where
  "add_all [] h = Inr h"
| "add_all (c # cs) h = (case add_h c h of Inl e \<Rightarrow> Inl e | Inr h' \<Rightarrow> add_all cs h')"

fun previous_times :: "nat \<Rightarrow> command_history \<Rightarrow> py_error + (string list \<times> command_history)" where
  "previous_times 0 h = Inr ([], h)"
| "previous_times (Suc n) h =
     (case previous h of
        Inl e \<Rightarrow> Inl e
      | Inr (c, h') \<Rightarrow>
          (case previous_times n h' of
             Inl e \<Rightarrow> Inl e
           | Inr (cs, h'') \<Rightarrow> Inr (c # cs, h'')))"

section \<open>The command line editor (class \<open>_Command\<close> of console.py)\<close>

text \<open>
  The editor keeps the text typed so far, the cursor and the length it believes the text
  has. Every method also writes to the terminal; a method of the model returns the text
  it writes to \<open>sys.stdout\<close> together with the new state of the object.
\<close>

record command_line =
  prompt :: string
  position :: int
  command :: string
  length_c :: int

abbreviation BS :: char where
  \<comment> \<open>the backspace character \<open>\b\<close>\<close>
  "BS \<equiv> CHR 0x08"

definition init_command :: "string \<Rightarrow> command_line" where
  \<comment> \<open>\<open>_Command(prompt)\<close>\<close>
  "init_command p = \<lparr>prompt = p, position = 0, command = [], length_c = 0\<rparr>"

definition erase_portion :: "int \<Rightarrow> string" where
  \<comment> \<open>\<open>_Command._erase_portion\<close>: backspace, space, backspace, \<open>num\<close> times\<close>
  "erase_portion num = py_repeat [BS, CHR '' '', BS] num"

definition get_command :: "command_line \<Rightarrow> string" where
  "get_command cl = command cl"

fun nearest_scan :: "command_line \<Rightarrow> int list \<Rightarrow> py_error + string" where
  \<comment> \<open>the \<open>for\<close> loop of \<open>get_nearest_option\<close> over the indices it visits\<close>
  "nearest_scan cl [] = Inr ''ERROR''"
| "nearest_scan cl (i # is) =
     (case py_getitem (command cl) i of
        Inl e \<Rightarrow> Inl e
      | Inr ch \<Rightarrow>
          if ch = CHR '' ''
          then Inr (py_strip (CHR '' '') (py_slice (command cl) (i + 1) (position cl)))
          else nearest_scan cl is)"

definition get_nearest_option :: "command_line \<Rightarrow> py_error + string" where
  "get_nearest_option cl =
     (let parts = py_split (CHR '' '') (command cl)
      in if position cl < length_c cl
         then nearest_scan cl
                (range_down (position cl - 1) (int (length (hd parts)) - 1))
         else Inr (last parts))"

definition erase_command :: "command_line \<Rightarrow> string \<times> command_line" where
  "erase_command cl =
     (py_repeat '' '' (length_c cl - position cl) @ erase_portion (length_c cl),
      cl\<lparr>command := []\<rparr>)"

definition erase_inline :: "bool \<Rightarrow> command_line \<Rightarrow> string" where
  \<comment> \<open>\<open>_Command._erase_inline\<close>; it only writes\<close>
  "erase_inline backspace cl =
     (if position cl < length_c cl
      then (let num_erase = 1 + length_c cl - position cl
            in (if backspace then [BS] else [])
               @ py_repeat '' '' num_erase @ py_repeat [BS] num_erase)
      else if backspace then erase_portion 1 else [])"

definition home_keypress :: "command_line \<Rightarrow> string \<times> command_line" where
  "home_keypress cl = (py_repeat [BS] (position cl), cl\<lparr>position := 0\<rparr>)"

definition end_keypress :: "command_line \<Rightarrow> string \<times> command_line" where
  "end_keypress cl =
     (py_slice (command cl) (position cl) (length_c cl), cl\<lparr>position := length_c cl\<rparr>)"

definition delete_keypress :: "command_line \<Rightarrow> string \<times> command_line" where
  "delete_keypress cl =
     (if position cl < length_c cl
      then if length_c cl = 1
           then ([CHR '' '', BS], cl\<lparr>command := [], length_c := 0\<rparr>)
           else if length_c cl > 0
           then (let old_command = command cl;
                     new_command = py_slice old_command 0 (position cl)
                       @ (if position cl < length_c cl
                          then py_slice_from old_command (position cl + 1) else []);
                     rest = py_slice_from new_command (position cl)
                 in (erase_inline False cl @ rest @ py_repeat [BS] (int (length rest)),
                     cl\<lparr>command := new_command, length_c := int (length new_command)\<rparr>))
           else ([], cl)
      else ([], cl))"

definition backspace_keypress :: "command_line \<Rightarrow> string \<times> command_line" where
  "backspace_keypress cl =
     (if position cl \<le> 0 then ([], cl)
      else if position cl < length_c cl
      then (let new_command = py_slice (command cl) 0 (position cl - 1)
                                @ py_slice_from (command cl) (position cl)
            in (erase_inline True cl @ py_slice_from new_command (position cl - 1)
                  @ py_repeat [BS] (length_c cl - position cl),
                cl\<lparr>command := new_command, length_c := length_c cl - 1,
                   position := position cl - 1\<rparr>))
      else (erase_portion 1,
            cl\<lparr>command := py_slice (command cl) 0 (length_c cl - 1),
               length_c := length_c cl - 1, position := position cl - 1\<rparr>))"

definition left_arrow_keypress :: "command_line \<Rightarrow> string \<times> command_line" where
  "left_arrow_keypress cl =
     (if position cl > 0 then ([BS], cl\<lparr>position := position cl - 1\<rparr>) else ([], cl))"

definition right_arrow_keypress :: "command_line \<Rightarrow> string \<times> command_line" where
  "right_arrow_keypress cl =
     (if position cl < length_c cl
      then (py_slice (command cl) (position cl) (position cl + 1),
            cl\<lparr>position := position cl + 1\<rparr>)
      else ([], cl))"

definition replace_command :: "string \<Rightarrow> command_line \<Rightarrow> string \<times> command_line" where
  "replace_command new_cmd cl =
     (if new_cmd \<noteq> []
      then (erase_portion (length_c cl) @ new_cmd,
            cl\<lparr>command := new_cmd, position := int (length new_cmd),
               length_c := int (length new_cmd)\<rparr>)
      else ([], cl))"

definition add_c :: "string option \<Rightarrow> command_line \<Rightarrow> string \<times> command_line" where
  \<comment> \<open>\<open>_Command.add\<close>; the key is \<open>None\<close> or a string\<close>
  "add_c key_opt cl =
     (case key_opt of
        None \<Rightarrow> ([], cl)
      | Some key \<Rightarrow>
          if position cl < length_c cl
          then (let num_erase = length_c cl - position cl;
                    new_command = py_slice (command cl) 0 (position cl) @ key
                                    @ py_slice_from (command cl) (position cl);
                    new_position = position cl + int (length key)
                in (py_repeat '' '' num_erase @ py_repeat [BS] num_erase
                      @ py_slice_from new_command (position cl)
                      @ py_repeat [BS] (length_c cl - new_position + int (length key)),
                    cl\<lparr>command := new_command, position := new_position,
                       length_c := length_c cl + int (length key)\<rparr>))
          else (key,
                cl\<lparr>command := command cl @ key,
                   position := position cl + int (length key),
                   length_c := length_c cl + int (length key)\<rparr>))"

definition display_command :: "command_line \<Rightarrow> string" where
  "display_command cl = prompt cl @ command cl"

definition clear_c :: "command_line \<Rightarrow> command_line" where
  \<comment> \<open>\<open>_Command.clear\<close>\<close>
  "clear_c cl = cl\<lparr>command := [], position := 0, length_c := 0\<rparr>"

text \<open>The invariant of the line buffer: \<open>0 \<le> position \<le> length == len(command)\<close>.\<close>

definition line_invariant :: "command_line \<Rightarrow> bool" where
  "line_invariant cl \<longleftrightarrow>
     0 \<le> position cl \<and> position cl \<le> length_c cl \<and> length_c cl = int (length (command cl))"

section \<open>The console (class \<open>Console\<close> of console.py)\<close>

subsection \<open>Keys, catalog entries and the terminal\<close>

definition COMMAND_KEY :: "py_key \<Rightarrow> string option" where
  \<comment> \<open>the dictionary \<open>_COMMAND_KEY\<close>; where the literal repeats the key \<open>\x7f\<close> the later
      entry is the one the dictionary holds\<close>
  "COMMAND_KEY = map_of
     [(Str [CHR 0x7F], ''BACKSPACE_POSIX''),
      (Str [CHR 0x1B, CHR ''['', CHR ''3'', CHR ''~''], ''DELETE_MAC''),
      (Str [CHR 0x0A], ''ENTER_POSIX''),
      (Str [CHR 0x0D], ''ENTER_WIN''),
      (Str [CHR 0x1B], ''ESCAPE''),
      (Str [CHR 0x1B, CHR ''['', CHR ''A''], ''ARROW_UP''),
      (Str [CHR 0x1B, CHR ''['', CHR ''B''], ''ARROW_DN''),
      (Str [CHR 0x1B, CHR ''['', CHR ''C''], ''ARROW_RT''),
      (Str [CHR 0x1B, CHR ''['', CHR ''D''], ''ARROW_LT''),
      (Str [CHR 0x09], ''TAB''),
      (Str [CHR 0xE0], ''SPECIAL_WIN''),
      (Str [CHR 0x08], ''BACKSPACE_WIN''),
      (Str [CHR 0x1B, CHR ''O'', CHR ''H''], ''HOME''),
      (Str [CHR 0x1B, CHR ''O'', CHR ''F''], ''END'')]"

definition WIN_COMMAND_KEY :: "py_key \<Rightarrow> string option" where
  \<comment> \<open>the dictionary \<open>_WIN_COMMAND_KEY\<close>\<close>
  "WIN_COMMAND_KEY = map_of
     [(Str ''S'', ''DELETE_WIN''), (Str ''H'', ''ARROW_UP''), (Str ''P'', ''ARROW_DN''),
      (Str ''M'', ''ARROW_RT''), (Str ''K'', ''ARROW_LT''), (Str ''G'', ''HOME''),
      (Str ''O'', ''END'')]"

datatype complete_mode = COMMAND_COMPLETE | OPTION_COMPLETE | VARIABLE_COMPLETE

record base_command =
  name :: string
  alias_c :: string
  help_text :: string

definition BASE_COMMANDS :: "base_command list" where
  \<comment> \<open>the list \<open>_BASE_COMMANDS\<close>; \<open>alias_c\<close> and \<open>help_text\<close> are the entries \<open>'alias'\<close> and \<open>'text'\<close>\<close>
  "BASE_COMMANDS =
     [\<lparr>name = ''help'', alias_c = ''help commands'', help_text = ''Show this list.''\<rparr>,
      \<lparr>name = ''exit'', alias_c = ''quit'', help_text = ''Exit the console.''\<rparr>,
      \<lparr>name = ''set <variable>=<value>'', alias_c = [],
        help_text = ''Store a variable for recall in commands.''\<rparr>,
      \<lparr>name = ''show options'', alias_c = [],
        help_text = ''Display list of options specified by the user on launch.''\<rparr>,
      \<lparr>name = ''show variables'', alias_c = [], help_text = ''Display list of variables.''\<rparr>,
      \<lparr>name = ''<ENTER>'', alias_c = [], help_text = ''Press ENTER to execute command.''\<rparr>,
      \<lparr>name = ''<ESCAPE>'', alias_c = [],
        help_text = ''Press ESCAPE to clear the command entry.''\<rparr>,
      \<lparr>name = ''<DOWN>'', alias_c = [],
        help_text = ''Press DOWN to retrieve the previous command.''\<rparr>,
      \<lparr>name = ''<UP>'', alias_c = [],
        help_text = ''Press UP to retrieve the next command in history.''\<rparr>,
      \<lparr>name = ''<TAB>'', alias_c = [],
        help_text = ''Press TAB for type completion of utility, option, or variable names.''\<rparr>,
      \<lparr>name = ''<TAB><TAB>'', alias_c = [],
        help_text = ''Press TAB twice for list of matching type completion (context sensitive).''\<rparr>]"

text \<open>
  What reaches the terminal is a list of events, oldest first: a text written by
  \<open>sys.stdout.write\<close> or \<open>print\<close> (which adds the newline), and the calls of the two
  printing routines that are not part of console.py, with their arguments:
  \<open>print_dictionary_list\<close> of the format module and \<open>Variables.show_variables\<close>.
\<close>

datatype out_event =
    Write string
  | PrintDictionaryList "string list" "string list" "base_command list" int bool
  | ShowVariables "(string \<times> string) list"

text \<open>
  The class \<open>Variables\<close> is imported from a module that is not part of the sources. Its
  two queries are parameters of the model: \<open>find_variable n\<close> is the value that
  \<open>find_variable(n)[n]\<close> reads, \<open>None\<close> when \<open>find_variable(n)\<close> is \<open>None\<close>;
  \<open>get_matches p\<close> is the list of one-entry dictionaries \<open>get_matches(p)\<close> returns, each as
  its (name, value) pair, and \<open>get_matches None\<close> stands for the call \<open>get_matches({})\<close>.
\<close>

record variables =
  find_variable :: "string \<Rightarrow> string option"
  get_matches :: "string option \<Rightarrow> (string \<times> string) list"

record console =
  tab_count :: int
  base_commands :: "base_command list"
  type_complete_mode :: complete_mode
  cmd_line :: command_line
  width :: int
  custom_commands :: bool
  quiet :: bool
  vars :: variables
  history :: command_history
  position_k :: int
  os_name :: string
  stdout :: "out_event list"

definition no_variables :: variables where
  \<comment> \<open>a table with no variable stored\<close>
  "no_variables = \<lparr>find_variable = (\<lambda>n. None), get_matches = (\<lambda>p. [])\<rparr>"

definition init_console :: "base_command list \<Rightarrow> console" where
  \<comment> \<open>\<open>Console(new_base_commands, {})\<close> on a Posix system: every option at its default\<close>
  "init_console new_base_commands =
     \<lparr>tab_count = 0, base_commands = new_base_commands @ BASE_COMMANDS,
      type_complete_mode = COMMAND_COMPLETE, cmd_line = init_command ''> '',
      width = 80, custom_commands = False, quiet = False, vars = no_variables,
      history = init_history 20, position_k = 0, os_name = ''posix'', stdout = []\<rparr>"

definition stdout_write :: "string \<Rightarrow> console \<Rightarrow> console" where
  \<comment> \<open>\<open>sys.stdout.write(s)\<close>\<close>
  "stdout_write s c = c\<lparr>stdout := stdout c @ [Write s]\<rparr>"

definition print_line :: "string \<Rightarrow> console \<Rightarrow> console" where
  \<comment> \<open>\<open>print(s)\<close>\<close>
  "print_line s c = stdout_write (s @ [CHR 0x0A]) c"

definition edit :: "(command_line \<Rightarrow> string \<times> command_line) \<Rightarrow> console \<Rightarrow> console" where
  \<comment> \<open>a method of \<open>self.cmd_line\<close> called from the console: its writes reach the terminal\<close>
  "edit f c = (let (w, cl) = f (cmd_line c) in stdout_write w (c\<lparr>cmd_line := cl\<rparr>))"

definition char_lower :: "char \<Rightarrow> char" where
  "char_lower ch =
     (if of_char (CHR ''A'') \<le> (of_char ch :: nat) \<and> (of_char ch :: nat) \<le> of_char (CHR ''Z'')
      then char_of (of_char ch + (32::nat)) else ch)"

definition py_lower :: "string \<Rightarrow> string" where
  \<comment> \<open>\<open>s.lower()\<close> on ASCII text\<close>
  "py_lower s = map char_lower s"

subsection \<open>Tab completion\<close>

definition get_commands :: "string \<Rightarrow> console \<Rightarrow> base_command list" where
  "get_commands cmd_prefix c =
     (let stop = int (length cmd_prefix); start = 0
      in filter (\<lambda>cmd. py_slice (name cmd) start stop = cmd_prefix
                     \<or> py_slice (alias_c cmd) start stop = cmd_prefix)
           (base_commands c))"

definition do_custom_tab :: "string \<Rightarrow> console \<Rightarrow> console" where
  \<comment> \<open>the body is \<open>pass\<close>\<close>
  "do_custom_tab prefix c = c"

definition do_custom_option_tab :: "string \<Rightarrow> console \<Rightarrow> console" where
  "do_custom_option_tab prefix c =
     (if quiet c then c
      else print_line ([CHR 0x0A, CHR 0x0A] @ ''No custom commands found.'' @ [CHR 0x0A]) c)"

definition do_base_command_tab :: "string \<Rightarrow> base_command list \<Rightarrow> console \<Rightarrow> console" where
  "do_base_command_tab command_text matches c =
     (if tab_count c = 2
      then (let c1 = print_line [CHR 0x0A] c;
                c2 = c1\<lparr>stdout := stdout c1 @
                        [PrintDictionaryList [''Command'', ''Description'']
                           [''name'', ''text'', ''alias''] matches (width c1) True]\<rparr>;
                c3 = print_line [] c2;
                c4 = stdout_write (display_command (cmd_line c3)) c3
            in c4\<lparr>tab_count := 0\<rparr>)
      else if length matches = 1
      then (let new_cmd =
                  (if py_slice (name (hd matches)) 0 (int (length command_text)) = command_text
                   then name (hd matches) @ '' ''
                   else alias_c (hd matches) @ '' '');
                c1 = c\<lparr>tab_count := 0\<rparr>
            in edit (add_c (Some (py_slice_from new_cmd (int (length command_text))))) c1)
      else c)"

definition do_command_tab :: "string \<Rightarrow> console \<Rightarrow> console" where
  "do_command_tab command_text c =
     (let matches = get_commands command_text c
      in if length matches > 0 then do_base_command_tab command_text matches c
         else if custom_commands c then do_custom_tab command_text c
         else c)"

definition do_option_tab :: "string \<Rightarrow> console \<Rightarrow> console" where
  "do_option_tab prefix c =
     (let full_command = get_command (cmd_line c);
          matches = get_commands (py_strip (CHR '' '') full_command) c
      in if length matches > 0 then do_base_command_tab full_command matches c
         else if custom_commands c
         then (if py_lower (py_slice full_command 0 4) = ''help''
               then do_custom_tab prefix c
               else do_custom_option_tab prefix c)
         else c)"

fun variable_scan :: "string \<Rightarrow> int list \<Rightarrow> string \<times> int \<Rightarrow> py_error + string \<times> int" where
  \<comment> \<open>the \<open>for\<close> loop of \<open>do_variable_tab\<close>, on the pair (variable, start_var)\<close>
  "variable_scan segment [] acc = Inr acc"
| "variable_scan segment (i # is) acc =
     (case py_getitem segment i of
        Inl e \<Rightarrow> Inl e
      | Inr ch \<Rightarrow>
          if ch = CHR '' '' then Inr acc
          else if ch = CHR ''$''
          then variable_scan segment is (py_slice_from segment (i + 1), i)
          else variable_scan segment is acc)"

definition do_variable_tab :: "string \<Rightarrow> console \<Rightarrow> py_error + console" where
  "do_variable_tab segment c =
     (let stop = int (length segment)
      in case variable_scan segment (range_down (stop - 1) 0) ([], 0) of
           Inl e \<Rightarrow> Inl e
         | Inr (variable, start_var) \<Rightarrow>
             (let matches = (if start_var = stop then get_matches (vars c) None
                             else get_matches (vars c) (Some variable))
              in if tab_count c = 2
                 then (let c1 = c\<lparr>stdout := stdout c @
                                  [ShowVariables (if length matches > 0 then matches else [])]\<rparr>;
                           c2 = stdout_write (display_command (cmd_line c1)) c1
                       in Inr (c2\<lparr>tab_count := 0\<rparr>))
                 else if length matches = 1
                 then (let new_var = fst (hd matches) @ '' '';
                           c1 = edit (add_c (Some (py_slice_from new_var (int (length variable))))) c
                       in Inr (c1\<lparr>tab_count := 0\<rparr>))
                 else Inr c))"

definition set_complete_mode :: "console \<Rightarrow> py_error + string \<times> console" where
  \<comment> \<open>\<open>Console._set_complete_mode\<close>: the segment it returns and the console with the mode set\<close>
  "set_complete_mode c =
     (let buf = get_command (cmd_line c);
          parts = py_split (CHR '' '') buf
      in if length buf > 0 \<and> length parts = 1
         then Inr ([], c\<lparr>type_complete_mode := COMMAND_COMPLETE\<rparr>)
         else (case get_nearest_option (cmd_line c) of
                 Inl e \<Rightarrow> Inl e
               | Inr segment \<Rightarrow>
                   if py_find (CHR ''$'') segment 0 > 0
                   then Inr (segment, c\<lparr>type_complete_mode := VARIABLE_COMPLETE\<rparr>)
                   else Inr (segment, c\<lparr>type_complete_mode := OPTION_COMPLETE\<rparr>)))"

subsection \<open>Keys\<close>

definition process_command_keys :: "string \<Rightarrow> console \<Rightarrow> py_error + console" where
  \<comment> \<open>\<open>Console._process_command_keys\<close>; the last branch is the one the source marks \<open>'TAB'\<close>,
      and it is taken for every key name that no earlier branch lists\<close>
  "process_command_keys cmd_key c =
     (if cmd_key \<in> set [''ESCAPE''] then Inr (edit erase_command c)
      else if cmd_key \<in> set [''DELETE_POSIX'', ''DELETE_WIN'', ''DELETE_MAC'']
      then Inr ((edit delete_keypress c)\<lparr>tab_count := 0\<rparr>)
      else if cmd_key = ''ARROW_UP''
      then (case previous (history c) of
              Inl e \<Rightarrow> Inl e
            | Inr (cmd, h) \<Rightarrow> Inr (edit (replace_command cmd) (c\<lparr>history := h\<rparr>)))
      else if cmd_key = ''ARROW_DN''
      then (case next_h (history c) of
              Inl e \<Rightarrow> Inl e
            | Inr (cmd, h) \<Rightarrow> Inr (edit (replace_command cmd) (c\<lparr>history := h\<rparr>)))
      else if cmd_key = ''ARROW_LT'' then Inr (edit left_arrow_keypress c)
      else if cmd_key = ''ARROW_RT'' then Inr (edit right_arrow_keypress c)
      else if cmd_key \<in> set [''BACKSPACE_POSIX'', ''BACKSPACE_WIN'']
      then Inr (edit backspace_keypress c)
      else if cmd_key = ''HOME'' then Inr (edit home_keypress c)
      else if cmd_key = ''END'' then Inr (edit end_keypress c)
      else (case set_complete_mode c of
              Inl e \<Rightarrow> Inl e
            | Inr (segment, c1) \<Rightarrow>
                (let c2 = c1\<lparr>tab_count := tab_count c1 + 1\<rparr>
                 in if type_complete_mode c2 = COMMAND_COMPLETE
                    then Inr (do_command_tab (get_command (cmd_line c2)) c2)
                    else if type_complete_mode c2 = OPTION_COMPLETE
                    then Inr (do_option_tab segment c2)
                    else do_variable_tab segment c2)))"

definition add_key :: "py_key \<Rightarrow> console \<Rightarrow> py_error + console" where
  \<comment> \<open>\<open>self.cmd_line.add(key)\<close> for a key as it was read: both branches of \<open>add\<close> join
      the key to the \<open>str\<close> command, which raises for \<open>bytes\<close>\<close>
  "add_key key c =
     (case key of
        Str k \<Rightarrow> Inr (edit (add_c (Some k)) c)
      | Bytes b \<Rightarrow> Inl TypeError)"

text \<open>
  \<open>get_user_command\<close> reads keys with \<open>getch()\<close> until one of the two Enter keys has been
  processed. The keys still to come are a list; \<open>getch()\<close> takes its head, and blocks for
  ever on the empty list, which is the result \<open>None\<close>. One pass through the body of the
  \<open>while\<close> loop is \<open>read_key\<close>: it returns the keys left, the new \<open>cmd_key\<close>, the new
  \<open>cmd_string\<close> and the console. The \<open>getch()\<close> of the module returns \<open>Bytes\<close> keys; a
  \<open>Str\<close> key is what a \<open>getch()\<close> that decodes its input would return.
\<close>

definition read_key ::
  "py_key list \<Rightarrow> string option \<Rightarrow> string \<Rightarrow> console
   \<Rightarrow> (py_error + py_key list \<times> string option \<times> string \<times> console) option" where
  "read_key keys cmd_key cmd_string c =
     (case keys of
        [] \<Rightarrow> None
      | key # rest \<Rightarrow>
          (case COMMAND_KEY key of
             Some ck \<Rightarrow>
               if os_name c \<noteq> ''posix'' \<and> ck = ''SPECIAL_WIN''
               then (case rest of
                       [] \<Rightarrow> None
                     | key2 # rest2 \<Rightarrow>
                         (case WIN_COMMAND_KEY key2 of
                            None \<Rightarrow> Some (Inr (rest2, None, cmd_string, c))
                          | Some ck2 \<Rightarrow>
                              (case process_command_keys ck2 c of
                                 Inl e \<Rightarrow> Some (Inl e)
                               | Inr c1 \<Rightarrow>
                                   Some (Inr (rest2, Some ck2, get_command (cmd_line c1), c1)))))
               else (case process_command_keys ck c of
                       Inl e \<Rightarrow> Some (Inl e)
                     | Inr c1 \<Rightarrow> Some (Inr (rest, Some ck, get_command (cmd_line c1), c1)))
           | None \<Rightarrow>
               (case add_key key c of
                  Inl e \<Rightarrow> Some (Inl e)
                | Inr c1 \<Rightarrow> Some (Inr (rest, cmd_key, get_command (cmd_line c1), c1)))))"

lemma read_key_consumes:
  "read_key keys ck cs c = Some (Inr (keys', ck', cs', c')) \<Longrightarrow> length keys' < length keys"
  by (auto simp: read_key_def Let_def split: list.splits option.splits if_splits sum.splits)

function user_command_loop ::
  "py_key list \<Rightarrow> string option \<Rightarrow> string \<Rightarrow> console
   \<Rightarrow> (py_error + string \<times> py_key list \<times> console) option" where
  "user_command_loop keys cmd_key cmd_string c =
     (if cmd_key \<in> set [Some ''ENTER_POSIX'', Some ''ENTER_WIN'']
      then Some (Inr (cmd_string, keys, c\<lparr>position_k := 0\<rparr>))
      else (case read_key keys cmd_key cmd_string c of
              None \<Rightarrow> None
            | Some (Inl e) \<Rightarrow> Some (Inl e)
            | Some (Inr (keys', cmd_key', cmd_string', c')) \<Rightarrow>
                user_command_loop keys' cmd_key' cmd_string' c'))"
  by pat_completeness auto
termination
  by (relation "measure (\<lambda>(keys, cmd_key, cmd_string, c). length keys)")
     (auto dest: read_key_consumes)

definition get_user_command ::
  "py_key list \<Rightarrow> console \<Rightarrow> (py_error + string \<times> py_key list \<times> console) option" where
  \<comment> \<open>the command typed, the keys not read yet and the console\<close>
  "get_user_command keys c =
     user_command_loop keys None []
       ((stdout_write (display_command (cmd_line c)) c)\<lparr>tab_count := 0\<rparr>)"

subsection \<open>Variable substitution\<close>

text \<open>
  The \<open>while\<close> loop of \<open>_replace_variables\<close> on its two variables \<open>i\<close> and \<open>new_cmd\<close>.
  Nothing in the source bounds the number of iterations, so the loop is a partial
  function: \<open>None\<close> is a loop that never ends, \<open>Some s\<close> the string it returns.
\<close>

partial_function (option) replace_loop ::
  "(string \<Rightarrow> string option) \<Rightarrow> int \<Rightarrow> string \<Rightarrow> string option" where
  "replace_loop fv i new_cmd =
     (if i > 0
      then (let i1 = py_find (CHR ''$'') new_cmd i
            in if i1 > 0
               then (let j0 = py_find (CHR '' '') new_cmd i1;
                         j = (if j0 = - 1 then int (length new_cmd) else j0)
                     in if j > i1
                        then (case fv (py_slice new_cmd (i1 + 1) j) of
                                Some v \<Rightarrow>
                                  replace_loop fv i1
                                    (py_slice new_cmd 0 i1 @ v @ py_slice_from new_cmd j)
                              | None \<Rightarrow> replace_loop fv j new_cmd)
                        else replace_loop fv i1 new_cmd)
               else replace_loop fv i1 new_cmd)
      else Some new_cmd)"

declare replace_loop.simps [code]

definition replace_variables :: "(string \<Rightarrow> string option) \<Rightarrow> string \<Rightarrow> string option" where
  \<comment> \<open>\<open>Console._replace_variables\<close>, for the table whose lookup is \<open>fv\<close>\<close>
  "replace_variables fv cmd_string = replace_loop fv 1 cmd_string"

text \<open>
  The substitution as the specification words it: the text is read from left to right;
  a \<open>$\<close> starts a token whose name runs up to the next space or the end of the text; the
  token is replaced by the stored value when the name is defined and is kept as it is
  otherwise; the reading goes on after the token.
\<close>

function spec_substitute :: "(string \<Rightarrow> string option) \<Rightarrow> string \<Rightarrow> string" where
  "spec_substitute fv [] = []"
| "spec_substitute fv (c # cs) =
     (if c = CHR ''$''
      then (let var_name = takeWhile (\<lambda>x. x \<noteq> CHR '' '') cs;
                rest = dropWhile (\<lambda>x. x \<noteq> CHR '' '') cs
            in (case fv var_name of Some v \<Rightarrow> v | None \<Rightarrow> c # var_name)
               @ spec_substitute fv rest)
      else c # spec_substitute fv cs)"
  by pat_completeness auto
termination
  by (relation "measure (\<lambda>(fv, s). length s)")
     (auto simp: length_dropWhile_le less_Suc_eq_le)

subsection \<open>Running commands that are not typed\<close>

text \<open>
  \<open>run_console\<close> has three branches. In the first two it executes commands it is given,
  with \<open>_do_command\<close>, and looks only at the flag that method returns (\<open>True\<close>: exit). The
  method is a parameter here, a function from the command and the state of the console
  to the flag and the new state; \<open>nt\<close> says whether \<open>os.name\<close> is \<open>'nt'\<close>.
\<close>

definition prepare_command :: "bool \<Rightarrow> string \<Rightarrow> string" where
  \<comment> \<open>what is passed to \<open>_do_command\<close> for one piece of a line\<close>
  "prepare_command nt cmd =
     (let cmd1 = py_strip (CHR '' '') (py_strip (CHR 0x0A) cmd);
          cmd2 = (if nt then py_strip (CHR 0x22) cmd1 else cmd1)
      in py_strip (CHR 0x22) cmd2)"

fun run_command_list ::
  "(string \<Rightarrow> 's \<Rightarrow> bool \<times> 's) \<Rightarrow> bool \<Rightarrow> string list \<Rightarrow> 's \<Rightarrow> 's" where
  \<comment> \<open>\<open>for cmd in command_list: ... if self._do_command(...): break\<close>\<close>
  "run_command_list do_command nt [] st = st"
| "run_command_list do_command nt (cmd # cmds) st =
     (case do_command (prepare_command nt cmd) st of
        (True, st') \<Rightarrow> st'
      | (False, st') \<Rightarrow> run_command_list do_command nt cmds st')"

definition run_commands ::
  "(string \<Rightarrow> 's \<Rightarrow> bool \<times> 's) \<Rightarrow> bool \<Rightarrow> string \<Rightarrow> 's \<Rightarrow> 's" where
  \<comment> \<open>the first branch of \<open>run_console\<close>: the commands of the option \<open>commands\<close>\<close>
  "run_commands do_command nt commands st =
     run_command_list do_command nt (py_split (CHR '';'') commands) st"

fun run_piped ::
  "(string \<Rightarrow> 's \<Rightarrow> bool \<times> 's) \<Rightarrow> bool \<Rightarrow> string list \<Rightarrow> 's \<Rightarrow> 's" where
  \<comment> \<open>the second branch of \<open>run_console\<close>: the outer loop over \<open>sys.stdin.readlines()\<close>\<close>
  "run_piped do_command nt [] st = st"
| "run_piped do_command nt (line # lines) st =
     run_piped do_command nt lines
       (run_command_list do_command nt (py_split (CHR '';'') line) st)"

subsection \<open>The segment of the line at the cursor\<close>

text \<open>
  \<open>nearest_token\<close> is the text between the cursor and the nearest space to its left, or
  the start of the line when there is none. \<open>cursor_segment\<close> is what
  \<open>get_nearest_option\<close> computes on a consistent line buffer: that text, except that a
  cursor inside the first word of a longer line gives the literal \<open>ERROR\<close>.
\<close>

definition nearest_token :: "command_line \<Rightarrow> string" where
  "nearest_token cl =
     rev (takeWhile (\<lambda>x. x \<noteq> CHR '' '') (rev (take (nat (position cl)) (command cl))))"

definition cursor_segment :: "command_line \<Rightarrow> string" where
  "cursor_segment cl =
     (if position cl < length_c cl
         \<and> position cl \<le> int (length (takeWhile (\<lambda>x. x \<noteq> CHR '' '') (command cl)))
      then ''ERROR'' else nearest_token cl)"

text \<open>The console \<open>Console([], {})\<close> with the text \<open>s\<close> in its line buffer and the cursor
  at \<open>p\<close>.\<close>

definition with_line :: "string \<Rightarrow> int \<Rightarrow> console" where
  "with_line s p =
     (init_console [])\<lparr>cmd_line := \<lparr>prompt = ''> '', position = p, command = s,
                                    length_c = int (length s)\<rparr>\<rparr>"

section \<open>The failover console (class \<open>FailoverConsole\<close> of failover_console.py)\<close>

subsection \<open>The master, the terminal and the data sources\<close>

text \<open>
  The console talks to objects that are not part of the sources: the master server, the
  callbacks that fetch the lists, the terminal and the clock. They are fields of the
  state. A row of a list is a tuple, here the list of its fields as strings.

  The master: \<open>alive\<close> is what \<open>is_alive()\<close> answers; \<open>connect_ok n\<close> says whether the
  call of \<open>connect()\<close> that follows \<open>n\<close> earlier calls succeeds (it raises otherwise), and
  \<open>attempts\<close> counts the calls made; \<open>status\<close> is the first row \<open>get_status()\<close> returns,
  \<open>None\<close> when the call raises or returns no row.
\<close>

type_synonym row = "string list"

record master_status =
  binlog_file :: string
  binlog_position :: string
  binlog_do_db :: string
  binlog_ignore_db :: string
  gtid_executed :: string

record master =
  alive :: bool
  connect_ok :: "nat \<Rightarrow> bool"
  attempts :: nat
  status :: "master_status option"

text \<open>
  What the console does to the outside, oldest first: a line printed, the screen
  cleared, the header line with the mode and the time of the alarm (formatted by
  \<open>time.ctime\<close>), the calls of the two table printers of the format module with their
  columns and rows, a record written to the log, and \<open>time.sleep\<close> with its argument.
\<close>

datatype fc_event =
    Print string
  | ClearScreen
  | PrintInterval string int
  | FormatTabularList "string list" "row list"
  | PrintList "string list" "row list"
  | LogInfo string
  | Sleep int

text \<open>
  A callback is \<open>None\<close> when the constructor was given \<open>None\<close>; a call of it returns
  \<open>Some\<close> data or raises, which is \<open>None\<close>. \<open>log_lines\<close> is what reading the log file
  returns (\<open>None\<close>: the file cannot be opened). \<open>terminal_size\<close> is the pair (columns,
  rows) \<open>get_terminal_size()\<close> returns and \<open>now\<close> is the value of \<open>time.time()\<close>.
\<close>

record failover_console =
  interval :: int
  pingtime :: int
  mode :: string
  logging :: bool
  log_file :: "string option"
  no_keyboard :: bool
  alarm :: int
  gtid_list :: int
  scroll_size :: int
  start_list :: int
  end_list :: int
  stop_list :: int
  rows_printed :: int
  max_cols :: int
  max_rows :: int
  list_data :: "(string list \<times> row list) option"
  comment :: string
  scroll_on :: bool
  old_mode :: "string option"
  master_gtids :: "row list"
  warnings_dic :: "(string \<times> string) list"
  master_f :: "master option"
  get_health_data :: "(string list \<times> row list) option option"
  get_gtid_data :: "row list list option option"
  get_uuid_data :: "row list option option"
  report_mode :: string
  log_lines :: "string list option"
  terminal_size :: "int \<times> int"
  now :: int
  trace :: "fc_event list"

definition COMMAND_KEYS :: "py_key \<Rightarrow> string option" where
  \<comment> \<open>the dictionary \<open>_COMMAND_KEYS\<close> of failover_console.py\<close>
  "COMMAND_KEYS = map_of
     [(Str [CHR 0x1B, CHR ''['', CHR ''A''], ''ARROW_UP''),
      (Str [CHR 0x1B, CHR ''['', CHR ''B''], ''ARROW_DN'')]"

definition MINIMUM_ROWS :: int where "MINIMUM_ROWS = 15"
definition HEALTH_LIST :: string where "HEALTH_LIST = ''Replication Health Status''"
definition MASTER_GTID_LIST :: string where "MASTER_GTID_LIST = ''Master GTID Executed Set''"
definition MASTER_GTID_COLS :: "string list" where "MASTER_GTID_COLS = [''gtid'']"
definition GTID_LISTS :: "string list" where
  "GTID_LISTS = [''Transactions executed on the servers:'',
                 ''Transactions purged from the servers:'',
                 ''Transactions owned by another server:'']"
definition UUID_LIST :: string where "UUID_LIST = ''UUIDs''"
definition LOG_LIST :: string where "LOG_LIST = ''Log File''"
definition GEN_UUID_COLS :: "string list" where "GEN_UUID_COLS = [''host'', ''port'', ''role'', ''uuid'']"
definition GEN_GTID_COLS :: "string list" where "GEN_GTID_COLS = [''host'', ''port'', ''role'', ''gtid'']"
definition DATE_LEN :: int where "DATE_LEN = 22"

definition emit :: "fc_event list \<Rightarrow> failover_console \<Rightarrow> failover_console" where
  "emit es s = s\<lparr>trace := trace s @ es\<rparr>"

definition reset_interval :: "int \<Rightarrow> failover_console \<Rightarrow> failover_console" where
  \<comment> \<open>\<open>_reset_interval\<close>\<close>
  "reset_interval i s = s\<lparr>interval := i, alarm := i + now s\<rparr>"

definition reset_screen_size :: "failover_console \<Rightarrow> failover_console" where
  \<comment> \<open>\<open>_reset_screen_size\<close>\<close>
  "reset_screen_size s =
     (let s1 = s\<lparr>max_cols := fst (terminal_size s), max_rows := snd (terminal_size s)\<rparr>
      in if max_rows s1 < MINIMUM_ROWS then s1\<lparr>max_rows := MINIMUM_ROWS\<rparr> else s1)"

definition init_failover_console ::
  "master option \<Rightarrow> (string list \<times> row list) option option \<Rightarrow> row list list option option
   \<Rightarrow> row list option option \<Rightarrow> int \<times> int \<Rightarrow> failover_console" where
  \<comment> \<open>\<open>FailoverConsole(master, get_health_data, get_gtid_data, get_uuid_data, {})\<close> at time 0\<close>
  "init_failover_console m health gtid uuid tsize =
     reset_screen_size
       \<lparr>interval = 15, pingtime = 3, mode = ''auto'', logging = False, log_file = None,
        no_keyboard = False, alarm = 15, gtid_list = - 1, scroll_size = 0, start_list = 0,
        end_list = 0, stop_list = 0, rows_printed = 0, max_cols = 80, max_rows = 24,
        list_data = None, comment = HEALTH_LIST, scroll_on = False, old_mode = None,
        master_gtids = [], warnings_dic = [], master_f = m, get_health_data = health,
        get_gtid_data = gtid, get_uuid_data = uuid, report_mode = ''H'', log_lines = None,
        terminal_size = tsize, now = 0, trace = []\<rparr>"

subsection \<open>Fetching the lists\<close>

definition format_gtid_data ::
  "failover_console \<Rightarrow> py_error + (string list \<times> row list) \<times> failover_console" where
  \<comment> \<open>\<open>_format_gtid_data\<close>\<close>
  "format_gtid_data s =
     (let s1 = s\<lparr>gtid_list := gtid_list s + 1\<rparr>;
          s2 = (if gtid_list s1 > 3 then s1\<lparr>gtid_list := 0\<rparr> else s1);
          finish = (\<lambda>rows sa.
             (let sb = sa\<lparr>start_list := 0, end_list := int (length rows), report_mode := ''G''\<rparr>
              in if gtid_list sb = 0 then Inr ((MASTER_GTID_COLS, rows), sb)
                 else Inr ((GEN_GTID_COLS, rows), sb)))
      in if gtid_list s2 = 0 \<and> master_gtids s2 \<noteq> []
         then finish (master_gtids s2) (s2\<lparr>comment := MASTER_GTID_LIST\<rparr>)
         else (case get_gtid_data s2 of
                 None \<Rightarrow> finish [] s2
               | Some None \<Rightarrow> Inl UtilRplError
               | Some (Some gtid_data) \<Rightarrow>
                   (case py_getitem GTID_LISTS (gtid_list s2 - 1) of
                      Inl e \<Rightarrow> Inl e
                    | Inr c \<Rightarrow>
                        (case py_getitem gtid_data (gtid_list s2 - 1) of
                           Inl e \<Rightarrow> Inl e
                         | Inr rows \<Rightarrow> finish rows (s2\<lparr>comment := c\<rparr>)))))"

definition format_health_data ::
  "failover_console \<Rightarrow> py_error + (string list \<times> row list) \<times> failover_console" where
  \<comment> \<open>\<open>_format_health_data\<close>\<close>
  "format_health_data s =
     (case get_health_data s of
        None \<Rightarrow> Inr (([], []), s)
      | Some None \<Rightarrow> Inl UtilRplError
      | Some (Some health_data) \<Rightarrow>
          Inr (health_data,
               s\<lparr>start_list := 0, end_list := int (length (snd health_data)),
                 report_mode := ''H''\<rparr>))"

definition format_uuid_data ::
  "failover_console \<Rightarrow> py_error + (string list \<times> row list) \<times> failover_console" where
  \<comment> \<open>\<open>_format_uuid_data\<close>\<close>
  "format_uuid_data s =
     (let finish = (\<lambda>rows sa.
             Inr ((GEN_UUID_COLS, rows),
                  sa\<lparr>start_list := 0, end_list := int (length rows), report_mode := ''U''\<rparr>))
      in case get_uuid_data s of
           None \<Rightarrow> finish [] s
         | Some None \<Rightarrow> Inl UtilRplError
         | Some (Some rows) \<Rightarrow> finish rows (s\<lparr>comment := UUID_LIST\<rparr>))"

definition format_log_entries ::
  "failover_console \<Rightarrow> py_error + (string list \<times> row list) \<times> failover_console" where
  \<comment> \<open>\<open>_format_log_entries\<close>\<close>
  "format_log_entries s =
     (let cols = [''Date'', ''Entry'']
      in if logging s \<and> log_file s \<noteq> None
         then (case log_lines s of
                 None \<Rightarrow> Inl IOError
               | Some lines \<Rightarrow>
                   (let rows = map (\<lambda>row. [py_slice row 0 DATE_LEN,
                                            py_strip (CHR 0x0A) (py_slice_from row (DATE_LEN + 1))])
                                 lines
                    in Inr ((cols, rows),
                            s\<lparr>comment := LOG_LIST, start_list := 0,
                              end_list := int (length rows), report_mode := ''L''\<rparr>)))
         else Inr ((cols, []), s\<lparr>report_mode := ''L''\<rparr>))"

subsection \<open>Drawing the screen\<close>

definition clear_f :: "failover_console \<Rightarrow> failover_console" where
  \<comment> \<open>\<open>FailoverConsole.clear\<close>\<close>
  "clear_f s = (emit [ClearScreen] s)\<lparr>rows_printed := 0\<rparr>"

definition print_header :: "failover_console \<Rightarrow> failover_console" where
  \<comment> \<open>\<open>_print_header\<close>\<close>
  "print_header s =
     (let s1 = emit [Print ''MySQL Replication Failover Utility'',
                     PrintInterval (mode s) (alarm s)] s;
          s2 = (if old_mode s1 \<noteq> None \<and> old_mode s1 \<noteq> Some (mode s1)
                then (emit [Print [],
                            Print ''NOTICE: Failover mode changed to fail due to another'',
                            Print ''        instance of the console running against master.'']
                        s1)\<lparr>rows_printed := rows_printed s1 + 2, max_rows := max_rows s1 - 3\<rparr>
                else s1);
          s3 = emit [Print []] s2
      in s3\<lparr>rows_printed := rows_printed s3 + 4\<rparr>)"

definition print_master_status :: "failover_console \<Rightarrow> py_error + failover_console" where
  \<comment> \<open>\<open>_print_master_status\<close>\<close>
  "print_master_status s =
     (case master_f s of
        None \<Rightarrow> Inr s
      | Some m \<Rightarrow>
          (case status m of
             None \<Rightarrow> Inl UtilRplError
           | Some st \<Rightarrow>
               (let s1 = (if logging s
                          then emit [LogInfo (''Master status: binlog: '' @ binlog_file st
                                              @ '', position:'' @ binlog_position st)] s
                          else s);
                    logfile = (if length (binlog_file st) > 20
                               then py_slice (binlog_file st) 0 20 else binlog_file st);
                    s2 = emit [Print ''Master Information'', Print ''------------------'',
                               FormatTabularList
                                 [''Binary Log File'', ''Position'', ''Binlog_Do_DB'',
                                  ''Binlog_Ignore_DB'']
                                 [[logfile, binlog_position st, binlog_do_db st,
                                   binlog_ignore_db st]]] s1;
                    gtids = map (\<lambda>gtid. [py_strip (CHR '','') gtid])
                              (filter (\<lambda>gtid. length gtid \<noteq> 0)
                                 (py_split (CHR 0x0A) (gtid_executed st)));
                    s3 = s2\<lparr>master_gtids := gtids\<rparr>;
                    first = (case gtids of (g # _) # _ \<Rightarrow> g | _ \<Rightarrow> ''None'');
                    s4 = emit [Print (CHR 0x0A # ''GTID Executed Set''),
                               Print (first @ '' '' @ (if length gtids > 1 then ''[...]'' else [])),
                               Print []] s3
                in Inr (s4\<lparr>rows_printed := rows_printed s4 + 7\<rparr>))))"

definition print_warnings :: "failover_console \<Rightarrow> failover_console" where
  \<comment> \<open>\<open>_print_warnings\<close>\<close>
  "print_warnings s =
     (emit (map (\<lambda>(k, msg). Print (''WARNING: '' @ msg)) (warnings_dic s)) s)
       \<lparr>rows_printed := rows_printed s + int (length (warnings_dic s))\<rparr>"

definition add_warning :: "string \<Rightarrow> string \<Rightarrow> failover_console \<Rightarrow> failover_console" where
  "add_warning warning_key warning_msg s =
     s\<lparr>warnings_dic :=
         (if warning_key \<in> fst ` set (warnings_dic s)
          then map (\<lambda>(k, m). if k = warning_key then (k, warning_msg) else (k, m)) (warnings_dic s)
          else warnings_dic s @ [(warning_key, warning_msg)])\<rparr>"

definition del_warning :: "string \<Rightarrow> failover_console \<Rightarrow> failover_console" where
  "del_warning warning_key s =
     s\<lparr>warnings_dic := filter (\<lambda>(k, m). k \<noteq> warning_key) (warnings_dic s)\<rparr>"

definition print_footer :: "bool \<Rightarrow> failover_console \<Rightarrow> failover_console" where
  \<comment> \<open>\<open>_print_footer\<close>: blank lines up to \<open>max_rows - 2\<close>, then the menu\<close>
  "print_footer scroll s =
     (let blanks = replicate (nat (max_rows s - 2 - rows_printed s)) (Print []);
          footer = (if no_keyboard s then [''Press CTRL+C to quit'']
                    else [''Q-quit R-refresh H-health G-GTID Lists U-UUIDs'']
                         @ (if logging s then [''L-log entries''] else [])
                         @ (if scroll then [''Up|Down-scroll''] else []));
          line = (case footer of [] \<Rightarrow> [] | f # fs \<Rightarrow> f @ concat (map (\<lambda>x. '' '' @ x) fs))
      in (emit (blanks @ [Print line]) s)\<lparr>rows_printed := max_rows s\<rparr>)"

definition print_list :: "bool \<Rightarrow> string option \<Rightarrow> failover_console \<Rightarrow> py_error + failover_console" where
  \<comment> \<open>\<open>_print_list(refresh, comment)\<close>\<close>
  "print_list refresh comment_arg s =
     (case list_data s of
        None \<Rightarrow> Inr s
      | Some (cols, data) \<Rightarrow>
          (case (if refresh then print_master_status (print_header (clear_f s)) else Inr s) of
             Inl e \<Rightarrow> Inl e
           | Inr s1 \<Rightarrow>
               (let cmt = (case comment_arg of None \<Rightarrow> comment s1 | Some c \<Rightarrow> c);
                    s2 = (emit [Print cmt] s1)\<lparr>rows_printed := rows_printed s1 + 1\<rparr>;
                    footer_len = 2;
                    remaining_rows = max_rows s2 - rows_printed s2 - 4 - footer_len;
                    (rows, s3) =
                      (if int (length (py_slice data (start_list s2) (end_list s2))) > remaining_rows
                       then (py_slice data (start_list s2) (start_list s2 + remaining_rows),
                             s2\<lparr>end_list := start_list s2 + remaining_rows, scroll_on := True\<rparr>)
                       else (py_slice data (start_list s2) (end_list s2),
                             if int (length data) = end_list s2 \<and> start_list s2 = 0
                             then s2\<lparr>scroll_on := False\<rparr> else s2));
                    s4 = (if length rows > 0
                          then (emit [PrintList cols rows] (s3\<lparr>scroll_size := int (length rows)\<rparr>))
                               \<lparr>rows_printed := rows_printed s3 + int (length rows) + 4\<rparr>
                          else (emit [Print ''0 Rows Found.''] s3)
                               \<lparr>rows_printed := rows_printed s3 + 1\<rparr>)
                in Inr (if refresh then print_footer (scroll_on s4) s4 else s4))))"

definition refresh_f :: "failover_console \<Rightarrow> py_error + failover_console" where
  \<comment> \<open>\<open>_refresh\<close>\<close>
  "refresh_f s =
     (case print_master_status (print_header (reset_screen_size (clear_f s))) of
        Inl e \<Rightarrow> Inl e
      | Inr s1 \<Rightarrow>
          (let s2 = print_warnings s1
           in case (if report_mode s2 = ''H''
                    then (case format_health_data s2 of
                            Inl e \<Rightarrow> Inl e
                          | Inr (d, s3) \<Rightarrow> Inr (s3\<lparr>list_data := Some d\<rparr>))
                    else Inr s2) of
                Inl e \<Rightarrow> Inl e
              | Inr s4 \<Rightarrow>
                  (case print_list False None s4 of
                     Inl e \<Rightarrow> Inl e
                   | Inr s5 \<Rightarrow> Inr (print_footer (scroll_on s5) s5))))"

subsection \<open>Scrolling and the keys of the dashboard\<close>

definition scroll :: "py_key \<Rightarrow> failover_console \<Rightarrow> py_error + failover_console" where
  \<comment> \<open>\<open>_scroll\<close>; \<open>len(self.list_data[1])\<close> raises when there is no list\<close>
  "scroll key s =
     (case COMMAND_KEYS key of
        None \<Rightarrow> Inl KeyError
      | Some k \<Rightarrow>
          if k = ''ARROW_UP''
          then (if start_list s > 0
                then (let s1 = s\<lparr>start_list := start_list s - scroll_size s\<rparr>;
                          s2 = (if start_list s1 < 0 then s1\<lparr>start_list := 0\<rparr> else s1)
                      in print_list True None (s2\<lparr>stop_list := scroll_size s2\<rparr>))
                else Inr s)
          else if k = ''ARROW_DN''
          then (case list_data s of
                  None \<Rightarrow> Inl TypeError
                | Some (cols, data) \<Rightarrow>
                    if end_list s < int (length data)
                    then (let s1 = s\<lparr>start_list := end_list s,
                                      end_list := end_list s + scroll_size s\<rparr>;
                              s2 = (if end_list s1 > int (length data)
                                    then s1\<lparr>end_list := int (length data)\<rparr> else s1)
                          in print_list True None s2)
                    else Inr s)
          else Inr s)"

definition do_command_f :: "py_key \<Rightarrow> failover_console \<Rightarrow> py_error + failover_console" where
  \<comment> \<open>\<open>FailoverConsole._do_command\<close>\<close>
  "do_command_f key s =
     (let s1 = s\<lparr>max_cols := fst (terminal_size s), max_rows := snd (terminal_size s)\<rparr>;
          s2 = (if key \<notin> set [Str ''g'', Str ''G''] then s1\<lparr>gtid_list := - 1\<rparr> else s1);
          show = (\<lambda>r. case r of
                         Inl e \<Rightarrow> Inl e
                       | Inr (d, sa) \<Rightarrow> print_list True None (sa\<lparr>list_data := Some d\<rparr>))
      in if key \<in> set [Str ''r'', Str ''R''] then refresh_f s2
         else if key \<in> set [Str ''g'', Str ''G''] then show (format_gtid_data s2)
         else if key \<in> set [Str ''h'', Str ''H''] then show (format_health_data s2)
         else if key \<in> set [Str ''u'', Str ''U''] then show (format_uuid_data s2)
         else if key \<in> set [Str ''l'', Str ''L'']
         then (if logging s2 then show (format_log_entries s2) else Inr s2)
         else if COMMAND_KEYS key \<noteq> None then scroll key s2
         else Inr s2)"

subsection \<open>The room for the list\<close>

text \<open>
  \<open>_scroll\<close> redraws the screen with \<open>_print_list(True)\<close>: the header takes 4 rows, and
  2 more and 3 rows of \<open>max_rows\<close> when the failover mode was changed; the status of the
  master takes 7 rows when there is a master; the title of the list takes 1; the frame of
  the list and the footer take 4 and 2. \<open>page_capacity\<close> is the number of rows that are
  left for the list, the value of \<open>remaining_rows\<close> in that call. \<open>status_available\<close> says
  that the redraw can read the status of the master.
\<close>

definition mode_changed :: "failover_console \<Rightarrow> bool" where
  "mode_changed s \<longleftrightarrow> old_mode s \<noteq> None \<and> old_mode s \<noteq> Some (mode s)"

definition status_available :: "failover_console \<Rightarrow> bool" where
  "status_available s \<longleftrightarrow> (case master_f s of None \<Rightarrow> True | Some m \<Rightarrow> status m \<noteq> None)"

definition page_capacity :: "failover_console \<Rightarrow> int" where
  "page_capacity s =
     (max_rows s - (if mode_changed s then 3 else 0))
     - ((if mode_changed s then 2 else 0) + 4 + (if master_f s = None then 0 else 7) + 1)
     - 4 - 2"

abbreviation ARROW_DN_KEY :: py_key where
  "ARROW_DN_KEY \<equiv> Str [CHR 0x1B, CHR ''['', CHR ''B'']"

subsection \<open>Reconnecting and the main loop\<close>

fun reconnect_attempts :: "nat \<Rightarrow> int \<Rightarrow> failover_console \<Rightarrow> bool \<times> failover_console" where
  \<comment> \<open>the \<open>while i < 3\<close> loop of \<open>_reconnect_master\<close> with \<open>n\<close> iterations left\<close>
  "reconnect_attempts 0 pt s = (False, s)"
| "reconnect_attempts (Suc n) pt s =
     (case master_f s of
        None \<Rightarrow> reconnect_attempts n pt (emit [Sleep pt] s)
      | Some m \<Rightarrow>
          if connect_ok m (attempts m)
          then (True, s\<lparr>master_f := Some (m\<lparr>attempts := attempts m + 1, alive := True\<rparr>)\<rparr>)
          else reconnect_attempts n pt
                 (emit [Sleep pt] (s\<lparr>master_f := Some (m\<lparr>attempts := attempts m + 1\<rparr>)\<rparr>)))"

definition reconnect_master :: "int \<Rightarrow> failover_console \<Rightarrow> bool \<times> failover_console" where
  \<comment> \<open>\<open>_reconnect_master(pingtime)\<close>\<close>
  "reconnect_master pt s =
     (if (case master_f s of None \<Rightarrow> False | Some m \<Rightarrow> alive m) then (True, s)
      else reconnect_attempts 3 pt s)"

definition disconnect :: "failover_console \<Rightarrow> py_error + failover_console" where
  \<comment> \<open>\<open>self.master.disconnect()\<close>\<close>
  "disconnect s =
     (case master_f s of
        None \<Rightarrow> Inl AttributeError
      | Some m \<Rightarrow> Inr (s\<lparr>master_f := Some (m\<lparr>alive := False\<rparr>)\<rparr>))"

definition key_pressed :: "py_key \<Rightarrow> failover_console \<Rightarrow> py_error + failover_console" where
  \<comment> \<open>the last branch of the loop of \<open>display_console\<close>, for a key that does not quit: the
      health list, when it is the one shown, is fetched and printed again, then the key
      is handled\<close>
  "key_pressed key s =
     (case (if report_mode s = ''H''
            then (case format_health_data s of
                    Inl e \<Rightarrow> Inl e
                  | Inr (d, s1) \<Rightarrow> print_list True None (s1\<lparr>list_data := Some d\<rparr>))
            else Inr s) of
        Inl e \<Rightarrow> Inl e
      | Inr s2 \<Rightarrow> do_command_f key s2)"

text \<open>
  The \<open>while\<close> loop of \<open>display_console\<close>. Its argument is the list of the results of
  the calls of \<open>_wait_for_interval\<close> to come: a key, or \<open>None\<close> when the interval expired
  first. The \<open>getch()\<close> of the module returns \<open>Bytes\<close> keys. The result is \<open>None\<close> when the
  loop is still waiting after the last of them; otherwise it is what \<open>display_console\<close>
  returns (\<open>None\<close> or \<open>True\<close>) with the state, or the exception that ends it.
\<close>

fun display_loop ::
  "py_key option list \<Rightarrow> failover_console
   \<Rightarrow> (py_error + bool option \<times> failover_console) option" where
  "display_loop [] s =
     (case disconnect s of Inl e \<Rightarrow> Some (Inl e) | Inr s1 \<Rightarrow> None)"
| "display_loop (key # rest) s =
     (case disconnect s of
        Inl e \<Rightarrow> Some (Inl e)
      | Inr s1 \<Rightarrow>
          (let s2 = snd (reconnect_master (pingtime s1) s1)
           in case key of
                None \<Rightarrow> Some (Inr (None, s2))
              | Some k \<Rightarrow>
                  if k \<in> set [Str ''Q'', Str ''q''] then Some (Inr (Some True, s2))
                  else (case key_pressed k s2 of
                          Inl e \<Rightarrow> Some (Inl e)
                        | Inr s3 \<Rightarrow> display_loop rest s3)))"

definition display_console ::
  "py_key option list \<Rightarrow> failover_console
   \<Rightarrow> (py_error + bool option \<times> failover_console) option" where
  \<comment> \<open>a callback that raises outside a \<open>try\<close> is the exception \<open>CallbackError\<close>\<close>
  "display_console keys s =
     (let s1 = reset_interval (interval s) s
      in case (if list_data s1 = None
               then (case get_health_data s1 of
                       None \<Rightarrow> Inl TypeError
                     | Some None \<Rightarrow> Inl CallbackError
                     | Some (Some d) \<Rightarrow>
                         Inr (s1\<lparr>list_data := Some d, start_list := 0,
                                 end_list := int (length (snd d)), gtid_list := - 1\<rparr>))
               else Inr s1) of
           Inl e \<Rightarrow> Some (Inl e)
         | Inr s2 \<Rightarrow>
             (case refresh_f s2 of
                Inl e \<Rightarrow> Some (Inl e)
              | Inr s3 \<Rightarrow> display_loop keys s3))"

text \<open>
  \<open>failed_attempts m\<close> is the number of calls of \<open>connect()\<close>, out of at most three, that
  fail before one succeeds, and \<open>after_reconnect s m\<close> is the state in which
  \<open>_reconnect_master\<close> leaves a console whose master \<open>m\<close> was disconnected: the calls
  counted, a sleep recorded after each failure, the master alive if a call succeeded.
\<close>

definition failed_attempts :: "master \<Rightarrow> nat" where
  "failed_attempts m =
     length (takeWhile (\<lambda>i. \<not> connect_ok m (attempts m + i)) [0, 1, 2])"

definition after_reconnect :: "failover_console \<Rightarrow> master \<Rightarrow> failover_console" where
  "after_reconnect s m =
     s\<lparr>master_f := Some (m\<lparr>attempts := attempts m + min (failed_attempts m + 1) 3,
                              alive := failed_attempts m < 3\<rparr>),
       trace := trace s @ replicate (failed_attempts m) (Sleep (pingtime s))\<rparr>"

section \<open>Claims\<close>

subsection \<open>Test data of the claims\<close>

text \<open>The catalog of the two entries \<open>help\<close> and \<open>history\<close>; the first is the built-in
  entry of \<open>_BASE_COMMANDS\<close>.\<close>

definition help_history_catalog :: "base_command list" where
  "help_history_catalog =
     [\<lparr>name = ''help'', alias_c = ''help commands'', help_text = ''Show this list.''\<rparr>,
      \<lparr>name = ''history'', alias_c = [], help_text = ''Show the commands entered.''\<rparr>]"

text \<open>A stand-in for \<open>_do_command\<close> that keeps a log of the commands it is given, oldest
  first, and signals exit for \<open>exit\<close> and \<open>quit\<close>.\<close>

definition record_command :: "string \<Rightarrow> string list \<Rightarrow> bool \<times> string list" where
  "record_command cmd log = (py_lower cmd \<in> set [''exit'', ''quit''], log @ [cmd])"

text \<open>
  A dashboard on a list of \<open>n\<close> rows, on a terminal of \<open>term_rows\<close> rows, with the window
  (\<open>start\<close>, \<open>end\<close>) and the scroll step \<open>step\<close>; the master is connected. \<open>scroll_keys\<close>
  presses scroll keys one after the other and \<open>window\<close> reads the window of the result.
\<close>

definition master_up :: master where
  "master_up =
     \<lparr>alive = True, connect_ok = (\<lambda>n. True), attempts = 0,
      status = Some \<lparr>binlog_file = ''mysql-bin.000001'', binlog_position = ''154'',
                      binlog_do_db = [], binlog_ignore_db = [], gtid_executed = []\<rparr>\<rparr>"

definition dashboard :: "nat \<Rightarrow> int \<Rightarrow> int \<Rightarrow> int \<Rightarrow> int \<Rightarrow> failover_console" where
  "dashboard n term_rows start end step =
     (init_failover_console (Some master_up) None None None (80, term_rows))
       \<lparr>list_data := Some ([''uuid''], replicate n [''x'']), report_mode := ''U'',
        start_list := start, end_list := end, scroll_size := step\<rparr>"








definition health_dashboard :: failover_console where
  "health_dashboard =
     (dashboard 50 28 0 10 10)
       \<lparr>report_mode := ''H'',
        get_health_data := Some (Some ([''uuid''], replicate 50 [''x'']))\<rparr>"

definition loop_window ::
  "(py_error + bool option \<times> failover_console) option \<Rightarrow> (int \<times> int) option" where
  "loop_window r =
     (case r of Some (Inr (b, s)) \<Rightarrow> Some (start_list s, end_list s) | _ \<Rightarrow> None)"

subsection \<open>Facts about the history\<close>

lemma add_all_append:
  "add_all (xs @ ys) h = (case add_all xs h of Inl e \<Rightarrow> Inl e | Inr h' \<Rightarrow> add_all ys h')"
  by (induction xs arbitrary: h) (auto split: sum.splits)

lemma add_all_under_capacity:
  "int (length xs) \<le> n \<Longrightarrow>
   add_all xs (init_history n) = Inr \<lparr>position_h = 0, commands_h = xs, max_size = n\<rparr>"
proof (induction xs rule: rev_induct)
  case Nil
  then show ?case by (simp add: init_history_def)
next
  case (snoc x xs)
  then show ?case by (simp add: add_all_append add_h_def)
qed

lemma add_h_full_at_zero:
  assumes "length xs = Suc m"
  shows "add_h c \<lparr>position_h = 0, commands_h = xs, max_size = int (Suc m)\<rparr>
         = Inr \<lparr>position_h = 0, commands_h = take m xs @ [c], max_size = int (Suc m)\<rparr>"
proof -
  have "xs[m := c] = take m xs @ [c]"
    using assms by (simp add: upd_conv_take_nth_drop)
  then show ?thesis
    using assms by (simp add: add_h_def py_setitem_def py_index_def)
qed

lemma previous_step:
  assumes "position_h h = int (Suc p)" "Suc p < length (commands_h h)"
  shows "previous h = Inr (commands_h h ! p, h\<lparr>position_h := int p\<rparr>)"
  using assms by (auto simp add: previous_def py_getitem_def py_index_def Let_def)

lemma previous_wrap:
  assumes "position_h h = 0" "length (commands_h h) = Suc m"
  shows "previous h = Inr (commands_h h ! m, h\<lparr>position_h := int m\<rparr>)"
  using assms by (simp add: previous_def py_getitem_def py_index_def Let_def)

lemma previous_times_descend:
  "position_h h = int p \<Longrightarrow> p < length (commands_h h) \<Longrightarrow>
   previous_times p h = Inr (rev (take p (commands_h h)), h\<lparr>position_h := 0\<rparr>)"
proof (induction p arbitrary: h)
  case 0
  then show ?case by simp
next
  case (Suc p)
  have st: "previous h = Inr (commands_h h ! p, h\<lparr>position_h := int p\<rparr>)"
    using Suc.prems by (rule previous_step)
  have "previous_times p (h\<lparr>position_h := int p\<rparr>)
        = Inr (rev (take p (commands_h h)), h\<lparr>position_h := 0\<rparr>)"
    using Suc.IH [of "h\<lparr>position_h := int p\<rparr>"] Suc.prems by simp
  with st show ?case
    using Suc.prems by (simp add: take_Suc_conv_app_nth)
qed

lemma previous_times_full_cycle:
  assumes "position_h h = 0" "length (commands_h h) = Suc m"
  shows "previous_times (Suc m) h = Inr (rev (commands_h h), h)"
proof -
  have st: "previous h = Inr (commands_h h ! m, h\<lparr>position_h := int m\<rparr>)"
    using assms by (rule previous_wrap)
  have "previous_times m (h\<lparr>position_h := int m\<rparr>)
        = Inr (rev (take m (commands_h h)), h\<lparr>position_h := 0\<rparr>)"
    using previous_times_descend [of "h\<lparr>position_h := int m\<rparr>" m] assms by simp
  moreover have "commands_h h = take m (commands_h h) @ [commands_h h ! m]"
    using assms by (metis lessI take_Suc_conv_app_nth take_all order_refl)
  moreover have "h\<lparr>position_h := 0\<rparr> = h" using assms by simp
  ultimately show ?thesis using st
    by (simp del: take_all) (metis rev.simps(2) rev_append rev_rev_ident)
qed

lemma add_all_overflow:
  assumes "length cs = Suc (Suc m)"
  shows "add_all cs (init_history (int (Suc m)))
         = Inr \<lparr>position_h = 0, commands_h = take m cs @ [last cs], max_size = int (Suc m)\<rparr>"
proof -
  have cs: "cs = butlast cs @ [last cs]" using assms by (cases cs) auto
  have len: "length (butlast cs) = Suc m" using assms by simp
  have "add_all cs (init_history (int (Suc m)))
        = add_all (butlast cs @ [last cs]) (init_history (int (Suc m)))"
    using cs by simp
  also have "\<dots> = add_h (last cs) \<lparr>position_h = 0, commands_h = butlast cs, max_size = int (Suc m)\<rparr>"
    using len by (simp add: add_all_append add_all_under_capacity split: sum.splits)
  also have "\<dots> = Inr \<lparr>position_h = 0, commands_h = take m (butlast cs) @ [last cs], max_size = int (Suc m)\<rparr>"
    using len by (rule add_h_full_at_zero)
  also have "take m (butlast cs) = take m cs"
    using assms by (simp add: take_butlast)
  finally show ?thesis .
qed

lemma overflow_kept_commands:
  assumes "length cs = Suc (Suc m)" "distinct cs"
  shows "set (take m cs @ [last cs]) = set cs - {cs ! m}"
proof -
  have split: "cs = take m cs @ [cs ! m, last cs]"
  proof -
    have "cs = take (Suc m) cs @ drop (Suc m) cs" by simp
    moreover have "take (Suc m) cs = take m cs @ [cs ! m]"
      using assms(1) by (simp add: take_Suc_conv_app_nth)
    moreover have "drop (Suc m) cs = [last cs]"
    proof -
      have "length (drop (Suc m) cs) = 1" using assms(1) by simp
      then obtain x where x: "drop (Suc m) cs = [x]"
        by (cases "drop (Suc m) cs") auto
      have "last cs = last (drop (Suc m) cs)"
        using assms(1) by (simp add: last_drop)
      with x show ?thesis by simp
    qed
    ultimately show ?thesis by (metis append.assoc append_Cons append_Nil)
  qed
  have "distinct (take m cs @ [cs ! m, last cs])" using split assms(2) by metis
  then have out: "cs ! m \<notin> set (take m cs)" "cs ! m \<noteq> last cs" by auto
  have "set cs = set (take m cs) \<union> {cs ! m, last cs}"
    by (subst split) (simp add: Un_commute insert_commute)
  with out show ?thesis by auto
qed

text \<open>
  Claim C1, as the code has it. A history of capacity \<open>N = m + 1\<close> that has received
  \<open>N + 1\<close> distinct commands \<open>cs\<close> holds \<open>N\<close> of them: \<open>add\<close> on the full list, with the
  position at zero, has overwritten the last slot, so the \<open>N\<close>-th command \<open>cs ! m\<close> is
  the one that is gone, and every other command, the first one included, is kept.
  Calling \<open>previous\<close> \<open>N\<close> times returns the last command added and then the first
  \<open>N - 1\<close> commands, newest first.
\<close>

theorem history_overflow_replaces_last_slot:
  assumes "length cs = Suc (Suc m)" and "distinct cs"
  shows "\<exists>h. add_all cs (init_history (int (Suc m))) = Inr h
           \<and> previous_times (Suc m) h = Inr (last cs # rev (take m cs), h)
           \<and> set (commands_h h) = set cs - {cs ! m}
           \<and> length (commands_h h) = Suc m"
proof -
  let ?h = "\<lparr>position_h = 0, commands_h = take m cs @ [last cs], max_size = int (Suc m)\<rparr>"
  have a: "add_all cs (init_history (int (Suc m))) = Inr ?h"
    using assms(1) by (rule add_all_overflow)
  have len: "length (commands_h ?h) = Suc m" using assms(1) by simp
  have "previous_times (Suc m) ?h = Inr (rev (commands_h ?h), ?h)"
    using len by (intro previous_times_full_cycle) simp_all
  then have p: "previous_times (Suc m) ?h = Inr (last cs # rev (take m cs), ?h)" by simp
  have k: "set (commands_h ?h) = set cs - {cs ! m}"
    using overflow_kept_commands [OF assms] by simp
  from a p k len show ?thesis by blast
qed

theorem history_overflow_replaces_last_slot_witness:
  "\<exists>h. add_all [''a'', ''b'', ''c''] (init_history 2) = Inr h
      \<and> previous_times 2 h = Inr ([''c'', ''a''], h)
      \<and> set (commands_h h) = {''a'', ''c''}
      \<and> length (commands_h h) = 2"
proof -
  have "set [''a'', ''b'', ''c''] - {[''a'', ''b'', ''c''] ! 1} = {''a'', ''c''}"
    by auto
  then show ?thesis
    using history_overflow_replaces_last_slot [of "[''a'', ''b'', ''c'']" 1]
    by (simp add: numeral_2_eq_2)
qed

text \<open>
  Claim C1 as stated fails for capacity 2: after \<open>a\<close>, \<open>b\<close>, \<open>c\<close> the two calls of
  \<open>previous\<close> return \<open>c\<close> and then \<open>a\<close>, not \<open>c\<close> and then \<open>b\<close>, and the first command
  \<open>a\<close> is still in the list.
\<close>

theorem history_ring_counterexample:
  "add_all [''a'', ''b'', ''c''] (init_history 2)
     = Inr \<lparr>position_h = 0, commands_h = [''a'', ''c''], max_size = 2\<rparr>
   \<and> previous_times 2 \<lparr>position_h = 0, commands_h = [''a'', ''c''], max_size = 2\<rparr>
     = Inr ([''c'', ''a''], \<lparr>position_h = 0, commands_h = [''a'', ''c''], max_size = 2\<rparr>)
   \<and> [''c'', ''a''] \<noteq> [''c'', ''b'']
   \<and> ''a'' \<in> set [''a'', ''c'']"
  by (simp add: init_history_def add_h_def py_setitem_def py_index_def previous_def
      py_getitem_def Let_def numeral_2_eq_2)

subsection \<open>Facts about variable substitution\<close>

lemma py_bound_nat: "py_bound xs (int k) = min k (length xs)"
  by (simp add: py_bound_def)

lemma takeWhile_upto_first: "c \<notin> set s1 \<Longrightarrow> takeWhile (\<lambda>x. x \<noteq> c) (s1 @ c # rest) = s1"
  by (induction s1) auto

lemma py_find_hit:
  assumes "c \<notin> set s1"
  shows "py_find c (pre @ s1 @ c # rest) (int (length pre)) = int (length pre + length s1)"
  using assms by (simp add: py_find_def py_bound_nat takeWhile_upto_first)

lemma py_find_miss:
  assumes "c \<notin> set suf"
  shows "py_find c (pre @ suf) (int (length pre)) = - 1"
  using assms by (simp add: py_find_def py_bound_nat)

lemma replace_loop_stop: "i \<le> 0 \<Longrightarrow> replace_loop fv i s = Some s"
  by (subst replace_loop.simps) simp

lemma spec_substitute_plain:
  "CHR ''$'' \<notin> set a \<Longrightarrow> spec_substitute fv (a @ b) = a @ spec_substitute fv b"
  by (induction a) auto

lemma token_end:
  fixes pre s1 rest :: string
  defines "nm \<equiv> takeWhile (\<lambda>x. x \<noteq> CHR '' '') rest"
  defines "cmd \<equiv> pre @ s1 @ CHR ''$'' # rest"
  defines "j0 \<equiv> py_find (CHR '' '') cmd (int (length pre + length s1))"
  shows "(if j0 = - 1 then int (length cmd) else j0) = int (length pre + length s1 + 1 + length nm)"
proof (cases "dropWhile (\<lambda>x. x \<noteq> CHR '' '') rest")
  case Nil
  then have nosp: "\<forall>x\<in>set rest. x \<noteq> CHR '' ''" by (simp add: dropWhile_eq_Nil_conv)
  then have all: "nm = rest" unfolding nm_def by (simp add: takeWhile_eq_all_conv)
  have "CHR '' '' \<notin> set (CHR ''$'' # rest)" using nosp by auto
  then have "py_find (CHR '' '') ((pre @ s1) @ (CHR ''$'' # rest)) (int (length (pre @ s1))) = - 1"
    by (rule py_find_miss)
  then have "j0 = - 1" unfolding j0_def cmd_def by simp
  then show ?thesis using all by (simp add: cmd_def)
next
  case (Cons x r)
  have x: "x = CHR '' ''"
    using Cons hd_dropWhile [of "\<lambda>x. x \<noteq> CHR '' ''" rest] by simp
  have "rest = takeWhile (\<lambda>x. x \<noteq> CHR '' '') rest @ dropWhile (\<lambda>x. x \<noteq> CHR '' '') rest"
    by simp
  then have rest: "rest = nm @ CHR '' '' # r"
    unfolding nm_def using Cons x by simp
  have nosp: "CHR '' '' \<notin> set (CHR ''$'' # nm)"
    unfolding nm_def by (auto dest: set_takeWhileD)
  have "py_find (CHR '' '') ((pre @ s1) @ (CHR ''$'' # nm) @ CHR '' '' # r) (int (length (pre @ s1)))
        = int (length (pre @ s1) + length (CHR ''$'' # nm))"
    using nosp by (rule py_find_hit)
  then have "j0 = int (length pre + length s1 + 1 + length nm)"
    unfolding j0_def cmd_def using rest by simp
  then show ?thesis by simp
qed

lemma replace_loop_step:
  assumes "0 < i" and "py_find (CHR ''$'') s i = i1" and "0 < i1"
    and "(if py_find (CHR '' '') s i1 = - 1 then int (length s) else py_find (CHR '' '') s i1) = j"
    and "i1 < j"
  shows "replace_loop fv i s =
           (case fv (py_slice s (i1 + 1) j) of
              Some v \<Rightarrow> replace_loop fv i1 (py_slice s 0 i1 @ v @ py_slice_from s j)
            | None \<Rightarrow> replace_loop fv j s)"
  by (subst replace_loop.simps) (use assms in \<open>auto simp add: Let_def\<close>)

lemma replace_loop_spec:
  assumes vals: "\<forall>n v. fv n = Some v \<longrightarrow> CHR ''$'' \<notin> set v" and pre: "pre \<noteq> []"
  shows "replace_loop fv (int (length pre)) (pre @ suf) = Some (pre @ spec_substitute fv suf)"
  using pre
proof (induction "length (filter (\<lambda>x. x = CHR ''$'') suf)" arbitrary: pre suf rule: less_induct)
  case less
  have pos: "0 < int (length pre)" using less.prems by simp
  show ?case
  proof (cases "CHR ''$'' \<in> set suf")
    case False
    then have "py_find (CHR ''$'') (pre @ suf) (int (length pre)) = - 1"
      by (rule py_find_miss)
    moreover have "spec_substitute fv suf = suf"
      using spec_substitute_plain [OF False, of fv "[]"] by simp
    ultimately show ?thesis
      using pos by (subst replace_loop.simps) (simp add: replace_loop_stop)
  next
    case True
    then obtain s1 rest where suf: "suf = s1 @ CHR ''$'' # rest" and s1: "CHR ''$'' \<notin> set s1"
      by (auto dest: split_list_first)
    define nm where "nm = takeWhile (\<lambda>x. x \<noteq> CHR '' '') rest"
    define rest' where "rest' = dropWhile (\<lambda>x. x \<noteq> CHR '' '') rest"
    have rest: "rest = nm @ rest'" by (simp add: nm_def rest'_def)
    let ?i1 = "int (length pre + length s1)"
    let ?j = "int (length pre + length s1 + 1 + length nm)"
    have i1: "py_find (CHR ''$'') (pre @ suf) (int (length pre)) = ?i1"
      unfolding suf using s1 by (rule py_find_hit)
    have j: "(if py_find (CHR '' '') (pre @ suf) ?i1 = - 1 then int (length (pre @ suf))
              else py_find (CHR '' '') (pre @ suf) ?i1) = ?j"
      unfolding suf nm_def using token_end [of pre s1 rest] by simp
    have "py_slice (pre @ suf) (int (length pre + length s1 + 1)) ?j = nm"
      unfolding py_slice_def py_bound_nat by (simp add: suf rest)
    then have nm: "py_slice (pre @ suf) (?i1 + 1) ?j = nm"
      by (simp add: add.commute)
    have "py_slice (pre @ suf) (int 0) ?i1 = pre @ s1"
      unfolding py_slice_def py_bound_nat by (simp add: suf)
    then have hd: "py_slice (pre @ suf) 0 ?i1 = pre @ s1" by simp
    have tl: "py_slice_from (pre @ suf) ?j = rest'"
      unfolding py_slice_from_def py_bound_nat by (simp add: suf rest)
    have spec: "spec_substitute fv suf
                = s1 @ (case fv nm of Some v \<Rightarrow> v | None \<Rightarrow> CHR ''$'' # nm) @ spec_substitute fv rest'"
      unfolding suf using s1
      by (simp add: spec_substitute_plain nm_def rest'_def Let_def split: option.splits)
    have less': "length (filter (\<lambda>x. x = CHR ''$'') rest') < length (filter (\<lambda>x. x = CHR ''$'') suf)"
      unfolding suf rest by simp
    have unfold: "replace_loop fv (int (length pre)) (pre @ suf)
          = (case fv nm of
               Some v \<Rightarrow> replace_loop fv ?i1 ((pre @ s1) @ v @ rest')
             | None \<Rightarrow> replace_loop fv ?j (pre @ suf))"
    proof -
      have "0 < length pre" using less.prems by simp
      then have i1pos: "0 < ?i1" by linarith
      have lt: "?i1 < ?j" by simp
      show ?thesis
        using replace_loop_step [OF pos i1 i1pos j lt, of fv] by (simp only: nm hd tl)
    qed
    show ?thesis
    proof (cases "fv nm")
      case None
      have idx: "int (length (pre @ s1 @ CHR ''$'' # nm)) = ?j" by simp
      have cmd_eq: "(pre @ s1 @ CHR ''$'' # nm) @ rest' = pre @ suf" by (simp add: suf rest)
      have res_eq: "(pre @ s1 @ CHR ''$'' # nm) @ spec_substitute fv rest' = pre @ spec_substitute fv suf"
        using spec None by simp
      have "replace_loop fv (int (length (pre @ s1 @ CHR ''$'' # nm))) ((pre @ s1 @ CHR ''$'' # nm) @ rest')
            = Some ((pre @ s1 @ CHR ''$'' # nm) @ spec_substitute fv rest')"
        using less' by (intro less.hyps) simp_all
      then have "replace_loop fv ?j (pre @ suf) = Some (pre @ spec_substitute fv suf)"
        by (simp only: idx cmd_eq res_eq)
      then show ?thesis
        by (simp only: unfold None option.case)
    next
      case (Some v)
      then have v: "CHR ''$'' \<notin> set v" using vals by blast
      have idx: "int (length (pre @ s1)) = ?i1" by simp
      have res_eq: "(pre @ s1) @ spec_substitute fv (v @ rest') = pre @ spec_substitute fv suf"
        using spec Some v by (simp add: spec_substitute_plain)
      have "filter (\<lambda>x. x = CHR ''$'') v = []"
        using v by (auto simp: filter_empty_conv)
      then have "length (filter (\<lambda>x. x = CHR ''$'') (v @ rest')) < length (filter (\<lambda>x. x = CHR ''$'') suf)"
        using less' by simp
      then have "replace_loop fv (int (length (pre @ s1))) ((pre @ s1) @ (v @ rest'))
            = Some ((pre @ s1) @ spec_substitute fv (v @ rest'))"
        using less.prems by (intro less.hyps) simp_all
      then have "replace_loop fv ?i1 ((pre @ s1) @ v @ rest') = Some (pre @ spec_substitute fv suf)"
        by (simp only: idx res_eq)
      then show ?thesis
        by (simp only: unfold Some option.case)
    qed
  qed
qed

text \<open>
  Claim C3, as the code has it. The scan of \<open>_replace_variables\<close> starts at index 1 and
  ends a name at a space character only. For a table none of whose stored values contains
  a \<open>$\<close>, and a command that does not begin with \<open>$\<close>, the method returns, and what it
  returns is the command with every token \<open>$name\<close> (a \<open>$\<close> and the characters up to the
  next space or the end of the string) replaced by the stored value when \<open>name\<close> is
  defined and kept as it is when \<open>name\<close> is not defined.
\<close>

theorem replace_variables_substitutes:
  assumes "\<forall>n v. fv n = Some v \<longrightarrow> CHR ''$'' \<notin> set v"
    and "cmd = [] \<or> hd cmd \<noteq> CHR ''$''"
  shows "replace_variables fv cmd = Some (spec_substitute fv cmd)"
proof (cases cmd)
  case Nil
  have "py_find (CHR ''$'') [] 1 = - 1" by (simp add: py_find_def)
  then have "replace_loop fv 1 [] = Some []"
    by (subst replace_loop.simps) (simp add: replace_loop_stop)
  then show ?thesis using Nil by (simp add: replace_variables_def)
next
  case (Cons c cs)
  then have c: "c \<noteq> CHR ''$''" using assms(2) by simp
  have "replace_loop fv (int (length [c])) ([c] @ cs) = Some ([c] @ spec_substitute fv cs)"
    using assms(1) by (intro replace_loop_spec) simp_all
  then show ?thesis using Cons c by (simp add: replace_variables_def)
qed

theorem replace_variables_substitutes_witness:
  "replace_variables [''name'' \<mapsto> ''db1''] ''use $name now $missing''
     = Some ''use db1 now $missing''"
proof -
  have "\<forall>n v. [''name'' \<mapsto> ''db1''] n = Some v \<longrightarrow> CHR ''$'' \<notin> set v"
    by (auto split: if_splits)
  moreover have "''use $name now $missing'' = [] \<or> hd ''use $name now $missing'' \<noteq> CHR ''$''"
    by simp
  ultimately show ?thesis
    using replace_variables_substitutes [of "[''name'' \<mapsto> ''db1'']" "''use $name now $missing''"]
    by simp
qed

text \<open>
  Claim C3 as stated fails in three ways: a token at position 0 is not replaced, a tab
  does not end a name (the token \<open>$name<TAB>now\<close> is looked up as a whole and kept), and a
  stored value that holds a \<open>$\<close> is substituted again, so that \<open>$a\<close> with \<open>a = $b\<close> and
  \<open>b = c\<close> becomes \<open>c\<close> and not the stored value \<open>$b\<close>.
\<close>

theorem replace_variables_counterexample:
  "replace_variables [''name'' \<mapsto> ''db1''] ''$name'' = Some ''$name''
   \<and> replace_variables [''name'' \<mapsto> ''db1''] (''use $name'' @ [CHR 0x09] @ ''now'')
       = Some (''use $name'' @ [CHR 0x09] @ ''now'')
   \<and> replace_variables [''a'' \<mapsto> ''$b'', ''b'' \<mapsto> ''c''] ''x $a'' = Some ''x c''"
  by code_simp

text \<open>
  With the variable \<open>x\<close> set to \<open>$x\<close> the loop comes back to the state it started from:
  the substitution puts a \<open>$\<close> at the index where the scan resumes.
\<close>

lemma replace_loop_cycle:
  assumes "replace_loop fv i s = Some y"
  shows "\<not> (fv = [''x'' \<mapsto> ''$x''] \<and> s = ''a $x'' \<and> (i = 1 \<or> i = 2))"
proof (rule replace_loop.raw_induct
    [where P = "\<lambda>fv i s y. \<not> (fv = [''x'' \<mapsto> ''$x''] \<and> s = ''a $x'' \<and> (i = 1 \<or> i = 2))",
      OF _ assms])
  fix rl :: "(string \<Rightarrow> string option) \<Rightarrow> int \<Rightarrow> string \<Rightarrow> string option"
  fix fv i s y
  assume ih: "\<And>fv i s y. rl fv i s = Some y \<Longrightarrow>
                \<not> (fv = [''x'' \<mapsto> ''$x''] \<and> s = ''a $x'' \<and> (i = 1 \<or> i = 2))"
  assume step: "(if 0 < i
      then let i1 = py_find CHR ''$'' s i
           in if 0 < i1
              then let j0 = py_find CHR '' '' s i1;
                       j = if j0 = - 1 then int (length s) else j0
                   in if i1 < j
                      then case fv (py_slice s (i1 + 1) j) of
                           None \<Rightarrow> rl fv j s
                           | Some v \<Rightarrow> rl fv i1 (py_slice s 0 i1 @ v @ py_slice_from s j)
                      else rl fv i1 s
              else rl fv i1 s
      else Some s) = Some y"
  show "\<not> (fv = [''x'' \<mapsto> ''$x''] \<and> s = ''a $x'' \<and> (i = 1 \<or> i = 2))"
  proof
    assume a: "fv = [''x'' \<mapsto> ''$x''] \<and> s = ''a $x'' \<and> (i = 1 \<or> i = 2)"
    then have "rl fv 2 ''a $x'' = Some y"
      using step
      by (auto simp: py_find_def py_bound_def py_slice_def py_slice_from_def Let_def)
    then show False using ih a by blast
  qed
qed

text \<open>
  Claim C9 fails on the code: for the table that stores \<open>$x\<close> under \<open>x\<close> and the command
  \<open>a $x\<close>, \<open>_replace_variables\<close> does not return.
\<close>

theorem replace_variables_never_returns:
  "replace_variables [''x'' \<mapsto> ''$x''] ''a $x'' = None"
proof (cases "replace_variables [''x'' \<mapsto> ''$x''] ''a $x''")
  case None
  then show ?thesis .
next
  case (Some y)
  then show ?thesis
    using replace_loop_cycle [of "[''x'' \<mapsto> ''$x'']" 1 "''a $x''" y]
    by (simp add: replace_variables_def)
qed

subsection \<open>Facts about the completion mode\<close>

lemma py_split_not_Nil [simp]: "py_split c s \<noteq> []"
  by (induction s) (auto split: list.splits)

lemma py_split_single: "length (py_split c s) = Suc 0 \<longleftrightarrow> c \<notin> set s"
proof (induction s)
  case Nil
  then show ?case by simp
next
  case (Cons x xs)
  then show ?case
    by (cases "py_split c xs") (auto split: list.splits)
qed

lemma takeWhile_all: "\<forall>x\<in>set w. P x \<Longrightarrow> takeWhile P w = w"
  by (induction w) auto

lemma hd_py_split: "hd (py_split c s) = takeWhile (\<lambda>x. x \<noteq> c) s"
  by (induction s) (auto split: list.splits)

lemma last_py_split: "last (py_split c s) = rev (takeWhile (\<lambda>x. x \<noteq> c) (rev s))"
proof (induction s)
  case Nil
  then show ?case by simp
next
  case (Cons x xs)
  show ?case
  proof (cases "c \<in> set xs")
    case True
    then have "takeWhile (\<lambda>x. x \<noteq> c) (rev xs @ [x]) = takeWhile (\<lambda>x. x \<noteq> c) (rev xs)"
      by (simp add: takeWhile_append1)
    moreover have "last (py_split c (x # xs)) = last (py_split c xs)"
      using True py_split_single [of c xs]
      by (cases "py_split c xs") (auto split: list.splits)
    ultimately show ?thesis using Cons by simp
  next
    case False
    then have one: "length (py_split c xs) = Suc 0" by (simp add: py_split_single)
    then obtain p where p: "py_split c xs = [p]"
      by (cases "py_split c xs") auto
    have "p = rev (takeWhile (\<lambda>x. x \<noteq> c) (rev xs))" using Cons p by simp
    also have "takeWhile (\<lambda>x. x \<noteq> c) (rev xs) = rev xs"
      using False by (intro takeWhile_all) auto
    finally have pxs: "p = xs" by simp
    have "takeWhile (\<lambda>x. x \<noteq> c) (rev xs @ [x]) = rev xs @ takeWhile (\<lambda>x. x \<noteq> c) [x]"
      using False by (intro takeWhile_append2) auto
    then show ?thesis using p pxs by auto
  qed
qed

lemma py_find_from_start:
  "py_find c s 0 > 0 \<longleftrightarrow> c \<in> set s \<and> hd s \<noteq> c"
  by (cases s) (auto simp: py_find_def py_bound_def)

lemma dropWhile_none: "\<forall>x\<in>set w. \<not> P x \<Longrightarrow> dropWhile P w = w"
  by (cases w) auto

lemma py_strip_no_sep:
  assumes "c \<notin> set w"
  shows "py_strip c w = w"
proof -
  have "dropWhile (\<lambda>x. x = c) w = w"
    using assms by (intro dropWhile_none) auto
  moreover have "dropWhile (\<lambda>x. x = c) (rev w) = rev w"
    using assms by (intro dropWhile_none) auto
  ultimately show ?thesis by (simp add: py_strip_def)
qed

lemma range_down_step: "b \<le> a \<Longrightarrow> range_down a (b - 1) = a # range_down (a - 1) (b - 1)"
  by (simp add: range_down_def upto_rec2)

lemma range_down_empty: "a < b \<Longrightarrow> range_down a (b - 1) = []"
  by (simp add: range_down_def)

lemma nearest_scan_finds:
  assumes "i \<le> a" and "b \<le> i" and "a < length (command cl)"
    and "command cl ! i = CHR '' ''"
    and "\<forall>k. i < k \<and> k \<le> a \<longrightarrow> command cl ! k \<noteq> CHR '' ''"
  shows "nearest_scan cl (range_down (int a) (int b - 1))
         = Inr (py_strip (CHR '' '') (py_slice (command cl) (int i + 1) (position cl)))"
  using assms
proof (induction "a - i" arbitrary: a)
  case 0
  then have "a = i" by simp
  then show ?case
    using 0 range_down_step [of "int b" "int a"]
    by (simp add: py_getitem_def py_index_def)
next
  case (Suc n)
  then have a: "i < a" "command cl ! a \<noteq> CHR '' ''" by auto
  have "nearest_scan cl (range_down (int (a - 1)) (int b - 1))
        = Inr (py_strip (CHR '' '') (py_slice (command cl) (int i + 1) (position cl)))"
    using Suc.prems Suc.hyps(2) a by (intro Suc.hyps(1)) auto
  moreover have "int (a - 1) = int a - 1" using a by simp
  ultimately show ?case
    using Suc.prems a range_down_step [of "int b" "int a"]
    by (simp add: py_getitem_def py_index_def)
qed

lemma get_nearest_option_at_end:
  assumes "line_invariant cl" and "\<not> position cl < length_c cl"
  shows "get_nearest_option cl = Inr (nearest_token cl)"
proof -
  have "nat (position cl) = length (command cl)"
    using assms by (simp add: line_invariant_def)
  then show ?thesis
    using assms(2) by (simp add: get_nearest_option_def nearest_token_def last_py_split)
qed

lemma get_nearest_option_first_word:
  assumes "position cl < length_c cl"
    and "position cl \<le> int (length (takeWhile (\<lambda>x. x \<noteq> CHR '' '') (command cl)))"
  shows "get_nearest_option cl = Inr ''ERROR''"
  using assms by (simp add: get_nearest_option_def hd_py_split range_down_empty)

lemma get_nearest_option_inside:
  assumes inv: "line_invariant cl" and lt: "position cl < length_c cl"
    and fw: "int (length (takeWhile (\<lambda>x. x \<noteq> CHR '' '') (command cl))) < position cl"
  shows "get_nearest_option cl = Inr (nearest_token cl)"
proof -
  define cmd where "cmd = command cl"
  define p where "p = nat (position cl)"
  define f where "f = length (takeWhile (\<lambda>x. x \<noteq> CHR '' '') cmd)"
  have pos: "position cl = int p" and p_lt: "p < length cmd" and f_lt: "f < p"
    using inv lt fw by (auto simp: line_invariant_def p_def cmd_def f_def)
  have f_sp: "cmd ! f = CHR '' ''"
    using nth_length_takeWhile [of "\<lambda>x. x \<noteq> CHR '' ''" cmd] f_lt p_lt by (simp add: f_def)
  have "CHR '' '' \<in> set (take p cmd)"
    using f_sp f_lt p_lt by (auto simp: in_set_conv_nth intro!: exI [of _ f])
  then obtain u w where uw: "take p cmd = u @ CHR '' '' # w" and w: "CHR '' '' \<notin> set w"
    by (auto dest: split_list_last)
  define i where "i = length u"
  have len: "length u + Suc (length w) = p"
    using uw p_lt by (metis length_append length_Cons length_take min.absorb2 less_imp_le)
  have i_lt: "i < p" using len by (simp add: i_def)
  have nth_take: "\<And>k. k < p \<Longrightarrow> cmd ! k = (u @ CHR '' '' # w) ! k"
    using uw by (metis nth_take)
  have i_sp: "cmd ! i = CHR '' ''" using nth_take [OF i_lt] by (simp add: i_def)
  have after: "\<forall>k. i < k \<and> k \<le> p - 1 \<longrightarrow> cmd ! k \<noteq> CHR '' ''"
  proof (intro allI impI)
    fix k assume k: "i < k \<and> k \<le> p - 1"
    then have kp: "k < p" using i_lt by arith
    have "cmd ! k = w ! (k - Suc i)"
      using nth_take [OF kp] k by (simp add: i_def nth_append nth_Cons')
    moreover have "k - Suc i < length w" using k len i_lt unfolding i_def by arith
    ultimately show "cmd ! k \<noteq> CHR '' ''" using w by (metis nth_mem)
  qed
  have f_le: "f \<le> i"
  proof (rule ccontr)
    assume "\<not> f \<le> i"
    then have "i < f" by simp
    then have "cmd ! i \<noteq> CHR '' ''"
      unfolding f_def
      by (metis (mono_tags, lifting) nth_mem set_takeWhileD takeWhile_nth)
    with i_sp show False by simp
  qed
  have scan: "nearest_scan cl (range_down (int (p - 1)) (int f - 1))
        = Inr (py_strip (CHR '' '') (py_slice (command cl) (int i + 1) (position cl)))"
    using i_lt f_le p_lt i_sp after
    by (intro nearest_scan_finds) (simp_all add: cmd_def)
  have "py_slice cmd (int (Suc i)) (int p) = w"
  proof -
    have "py_slice cmd (int (Suc i)) (int p) = drop (Suc i) (take p cmd)"
      unfolding py_slice_def py_bound_nat using p_lt i_lt by (simp add: drop_take min_def)
    then show ?thesis using uw by (simp add: i_def)
  qed
  then have slice: "py_slice (command cl) (int i + 1) (position cl) = w"
    by (simp add: cmd_def pos add.commute)
  have tok: "nearest_token cl = w"
    using uw w
    by (simp add: nearest_token_def p_def [symmetric] cmd_def [symmetric] takeWhile_upto_first)
  have "int (p - 1) = position cl - 1" using i_lt pos by simp
  then show ?thesis
    using lt scan slice tok w
    by (simp add: get_nearest_option_def hd_py_split f_def cmd_def py_strip_no_sep)
qed

lemma get_nearest_option_segment:
  assumes "line_invariant cl"
  shows "get_nearest_option cl = Inr (cursor_segment cl)"
proof (cases "position cl < length_c cl")
  case False
  then show ?thesis
    using assms by (simp add: cursor_segment_def get_nearest_option_at_end)
next
  case True
  show ?thesis
  proof (cases "position cl \<le> int (length (takeWhile (\<lambda>x. x \<noteq> CHR '' '') (command cl)))")
    case True
    then show ?thesis
      using \<open>position cl < length_c cl\<close>
      by (simp add: cursor_segment_def get_nearest_option_first_word)
  next
    case False
    then show ?thesis
      using \<open>position cl < length_c cl\<close> assms
      by (simp add: cursor_segment_def get_nearest_option_inside)
  qed
qed

text \<open>
  Claim C4, as the code has it. On a consistent line buffer: a buffer that is not empty
  and holds no space gives \<open>COMMAND_COMPLETE\<close>. Otherwise, for an empty buffer or one
  that holds a space, the segment is \<open>cursor_segment\<close>, and the mode is
  \<open>OPTION_COMPLETE\<close> when the segment holds no \<open>$\<close> and \<open>VARIABLE_COMPLETE\<close> when it
  holds a \<open>$\<close> and does not begin with one. (A segment that begins with \<open>$\<close> is left
  out of the statement.)
\<close>

theorem complete_mode_selection:
  assumes "line_invariant (cmd_line c)"
  shows "(command (cmd_line c) \<noteq> [] \<and> CHR '' '' \<notin> set (command (cmd_line c))
           \<longrightarrow> set_complete_mode c = Inr ([], c\<lparr>type_complete_mode := COMMAND_COMPLETE\<rparr>))
       \<and> ((command (cmd_line c) = [] \<or> CHR '' '' \<in> set (command (cmd_line c)))
            \<and> CHR ''$'' \<notin> set (cursor_segment (cmd_line c))
           \<longrightarrow> set_complete_mode c
                 = Inr (cursor_segment (cmd_line c), c\<lparr>type_complete_mode := OPTION_COMPLETE\<rparr>))
       \<and> ((command (cmd_line c) = [] \<or> CHR '' '' \<in> set (command (cmd_line c)))
            \<and> CHR ''$'' \<in> set (cursor_segment (cmd_line c))
            \<and> hd (cursor_segment (cmd_line c)) \<noteq> CHR ''$''
           \<longrightarrow> set_complete_mode c
                 = Inr (cursor_segment (cmd_line c), c\<lparr>type_complete_mode := VARIABLE_COMPLETE\<rparr>))"
proof -
  have seg: "get_nearest_option (cmd_line c) = Inr (cursor_segment (cmd_line c))"
    using assms by (rule get_nearest_option_segment)
  have one: "length (py_split (CHR '' '') (command (cmd_line c))) = 1
             \<longleftrightarrow> CHR '' '' \<notin> set (command (cmd_line c))"
    using py_split_single [of "CHR '' ''" "command (cmd_line c)"] by simp
  show ?thesis
    using seg one py_find_from_start [of "CHR ''$''" "cursor_segment (cmd_line c)"]
    by (auto simp: set_complete_mode_def get_command_def Let_def)
qed

theorem complete_mode_selection_witness:
  "set_complete_mode (with_line ''he'' 2)
     = Inr ([], (with_line ''he'' 2)\<lparr>type_complete_mode := COMMAND_COMPLETE\<rparr>)
   \<and> set_complete_mode (with_line ''ls --ver'' 8)
     = Inr (''--ver'', (with_line ''ls --ver'' 8)\<lparr>type_complete_mode := OPTION_COMPLETE\<rparr>)
   \<and> set_complete_mode (with_line ''ls --db=$na -v'' 11)
     = Inr (''--db=$na'', (with_line ''ls --db=$na -v'' 11)\<lparr>type_complete_mode := VARIABLE_COMPLETE\<rparr>)"
proof -
  have 1: "line_invariant (cmd_line (with_line ''he'' 2))"
    and 2: "line_invariant (cmd_line (with_line ''ls --ver'' 8))"
    and 3: "line_invariant (cmd_line (with_line ''ls --db=$na -v'' 11))"
    by (simp_all add: with_line_def line_invariant_def)
  have s2: "cursor_segment (cmd_line (with_line ''ls --ver'' 8)) = ''--ver''"
    and s3: "cursor_segment (cmd_line (with_line ''ls --db=$na -v'' 11)) = ''--db=$na''"
    by (simp_all add: with_line_def cursor_segment_def nearest_token_def)
  show ?thesis
    using complete_mode_selection [OF 1] complete_mode_selection [OF 2]
      complete_mode_selection [OF 3]
    unfolding s2 s3 by (simp add: with_line_def)
qed

text \<open>
  Claim C4 as stated fails: the empty buffer holds no space and gives
  \<open>OPTION_COMPLETE\<close>; the segment \<open>$v\<close>, which begins with the \<open>$\<close>, gives
  \<open>OPTION_COMPLETE\<close>; and with the cursor inside the first word \<open>a$b\<close> the segment is
  \<open>ERROR\<close> and the mode \<open>OPTION_COMPLETE\<close>.
\<close>

theorem complete_mode_counterexample:
  "set_complete_mode (with_line [] 0)
     = Inr ([], (with_line [] 0)\<lparr>type_complete_mode := OPTION_COMPLETE\<rparr>)
   \<and> set_complete_mode (with_line ''ls $v'' 5)
     = Inr (''$v'', (with_line ''ls $v'' 5)\<lparr>type_complete_mode := OPTION_COMPLETE\<rparr>)
   \<and> set_complete_mode (with_line ''a$b c'' 3)
     = Inr (''ERROR'', (with_line ''a$b c'' 3)\<lparr>type_complete_mode := OPTION_COMPLETE\<rparr>)"
  by (simp add: with_line_def set_complete_mode_def get_command_def get_nearest_option_def
      Let_def py_find_def py_bound_def range_down_def)

subsection \<open>Facts about the line editor\<close>

text \<open>Every method of the editor but \<open>erase_command\<close> keeps the invariant.\<close>

lemma add_c_keeps_invariant:
  "line_invariant cl \<Longrightarrow> line_invariant (snd (add_c k cl))"
  by (auto simp: line_invariant_def add_c_def Let_def py_slice_def py_slice_from_def
      py_bound_def split: option.splits)
lemma backspace_keeps_invariant:
  "line_invariant cl \<Longrightarrow> line_invariant (snd (backspace_keypress cl))"
  by (auto simp: line_invariant_def backspace_keypress_def Let_def py_slice_def
      py_slice_from_def py_bound_def)
lemma delete_keeps_invariant:
  "line_invariant cl \<Longrightarrow> line_invariant (snd (delete_keypress cl))"
  by (auto simp: line_invariant_def delete_keypress_def Let_def py_slice_def
      py_slice_from_def py_bound_def)
lemma left_arrow_keeps_invariant:
  "line_invariant cl \<Longrightarrow> line_invariant (snd (left_arrow_keypress cl))"
  by (auto simp: line_invariant_def left_arrow_keypress_def)
lemma right_arrow_keeps_invariant:
  "line_invariant cl \<Longrightarrow> line_invariant (snd (right_arrow_keypress cl))"
  by (auto simp: line_invariant_def right_arrow_keypress_def)
lemma home_keeps_invariant:
  "line_invariant cl \<Longrightarrow> line_invariant (snd (home_keypress cl))"
  by (auto simp: line_invariant_def home_keypress_def)
lemma end_keeps_invariant:
  "line_invariant cl \<Longrightarrow> line_invariant (snd (end_keypress cl))"
  by (auto simp: line_invariant_def end_keypress_def)
lemma replace_keeps_invariant:
  "line_invariant cl \<Longrightarrow> line_invariant (snd (replace_command n cl))"
  by (auto simp: line_invariant_def replace_command_def)
lemma clear_gives_invariant: "line_invariant (clear_c cl)"
  by (auto simp: line_invariant_def clear_c_def)
lemma init_command_invariant: "line_invariant (init_command p)"
  by (auto simp: line_invariant_def init_command_def)

lemma erase_command_breaks:
  "line_invariant cl \<Longrightarrow> command cl \<noteq> [] \<Longrightarrow> \<not> line_invariant (snd (erase_command cl))"
  by (auto simp: line_invariant_def erase_command_def)

text \<open>
  Claim C6 fails on the code for \<open>erase_command\<close>: the method empties the text and
  leaves the cursor and the length as they were. After \<open>abc\<close> has been typed, the Escape
  key leaves an empty command with position 3 and length 3.
\<close>

theorem erase_command_breaks_invariant:
  "snd (add_c (Some ''abc'') (init_command ''> ''))
     = \<lparr>prompt = ''> '', position = 3, command = ''abc'', length_c = 3\<rparr>
   \<and> line_invariant \<lparr>prompt = ''> '', position = 3, command = ''abc'', length_c = 3\<rparr>
   \<and> snd (erase_command \<lparr>prompt = ''> '', position = 3, command = ''abc'', length_c = 3\<rparr>)
     = \<lparr>prompt = ''> '', position = 3, command = [], length_c = 3\<rparr>
   \<and> \<not> line_invariant \<lparr>prompt = ''> '', position = 3, command = [], length_c = 3\<rparr>"
  by (simp add: add_c_def init_command_def erase_command_def line_invariant_def)

subsection \<open>Facts about Tab completion\<close>

lemmas tab_defs = process_command_keys_def set_complete_mode_def get_command_def
  do_command_tab_def do_base_command_tab_def get_commands_def edit_def add_c_def
  stdout_write_def print_line_def display_command_def py_slice_def py_slice_from_def
  py_bound_def Let_def

lemma single_match_is_completed:
  "\<exists>c'. process_command_keys ''TAB''
          ((with_line ''he'' 2)\<lparr>base_commands := help_history_catalog\<rparr>) = Inr c'
      \<and> command (cmd_line c') = ''help '' \<and> tab_count c' = 0"
  by (simp add: with_line_def init_console_def help_history_catalog_def init_command_def tab_defs)

text \<open>The same completion in the catalog \<open>Console([history], {})\<close> builds, the built-in
  entries after the entry \<open>history\<close>.\<close>

lemma single_match_is_completed_builtin:
  "\<exists>c'. process_command_keys ''TAB''
          ((with_line ''he'' 2)
             \<lparr>base_commands :=
                \<lparr>name = ''history'', alias_c = [], help_text = ''Show the commands entered.''\<rparr>
                # BASE_COMMANDS\<rparr>) = Inr c'
      \<and> command (cmd_line c') = ''help '' \<and> tab_count c' = 0"
  by (simp add: with_line_def init_console_def BASE_COMMANDS_def init_command_def tab_defs)

lemma two_tabs_list_matches:
  "\<exists>c1 c2. process_command_keys ''TAB''
          ((with_line ''h'' 1)\<lparr>base_commands := help_history_catalog\<rparr>) = Inr c1
    \<and> process_command_keys ''TAB'' c1 = Inr c2
    \<and> command (cmd_line c1) = ''h'' \<and> tab_count c1 = 1 \<and> stdout c1 = []
    \<and> command (cmd_line c2) = ''h'' \<and> tab_count c2 = 0
    \<and> stdout c2 = [Write [CHR 0x0A, CHR 0x0A],
          PrintDictionaryList [''Command'', ''Description''] [''name'', ''text'', ''alias'']
            help_history_catalog 80 True,
          Write [CHR 0x0A], Write ''> h'']"
  by (simp add: with_line_def init_console_def help_history_catalog_def init_command_def tab_defs)

text \<open>
  Claim C10. With the catalog of \<open>help\<close> and \<open>history\<close> and a press counter at zero: on
  the buffer \<open>he\<close> one Tab makes the buffer \<open>help \<close> and leaves the counter at zero; on
  the buffer \<open>h\<close> the first Tab changes nothing but the counter, and the second prints
  the two matching entries, writes the prompt and the buffer again, and leaves the buffer
  \<open>h\<close> and the counter at zero.
\<close>

theorem tab_completion_help_history:
  "(\<exists>c'. process_command_keys ''TAB''
            ((with_line ''he'' 2)\<lparr>base_commands := help_history_catalog\<rparr>) = Inr c'
         \<and> command (cmd_line c') = ''help '' \<and> tab_count c' = 0)
   \<and> (\<exists>c1 c2. process_command_keys ''TAB''
            ((with_line ''h'' 1)\<lparr>base_commands := help_history_catalog\<rparr>) = Inr c1
         \<and> process_command_keys ''TAB'' c1 = Inr c2
         \<and> command (cmd_line c1) = ''h'' \<and> tab_count c1 = 1 \<and> stdout c1 = []
         \<and> command (cmd_line c2) = ''h'' \<and> tab_count c2 = 0
         \<and> stdout c2 = [Write [CHR 0x0A, CHR 0x0A],
               PrintDictionaryList [''Command'', ''Description''] [''name'', ''text'', ''alias'']
                 help_history_catalog 80 True,
               Write [CHR 0x0A], Write ''> h''])"
  using single_match_is_completed two_tabs_list_matches by (rule conjI)


subsection \<open>Facts about the press counter and the run modes\<close>

lemma edit_tab_count: "tab_count (edit f c) = tab_count c"
  by (simp add: edit_def stdout_write_def split: prod.splits)

lemma other_keys_keep_tab_count:
  assumes "cmd_key \<in> set [''ESCAPE'', ''ARROW_UP'', ''ARROW_DN'', ''ARROW_LT'', ''ARROW_RT'',
                           ''BACKSPACE_POSIX'', ''BACKSPACE_WIN'', ''HOME'', ''END'']"
    and "process_command_keys cmd_key c = Inr c'"
  shows "tab_count c' = tab_count c"
  using assms
  by (auto simp: process_command_keys_def edit_tab_count split: sum.splits prod.splits)

lemma character_keeps_tab_count:
  assumes "COMMAND_KEY key = None"
    and "read_key (key # rest) cmd_key cmd_string c = Some (Inr (rest', cmd_key', cmd_string', c'))"
  shows "tab_count c' = tab_count c"
  using assms
  by (auto simp: read_key_def add_key_def Let_def edit_tab_count split: py_key.splits)

text \<open>A key of type \<open>bytes\<close>, which is what the \<open>getch()\<close> of the module returns, is in no
  table and cannot be added to the command: the loop ends with \<open>TypeError\<close>.\<close>

lemma bytes_key_raises:
  "read_key (Bytes b # rest) cmd_key cmd_string c = Some (Inl TypeError)"
  by (simp add: read_key_def COMMAND_KEY_def add_key_def)

lemma delete_resets_tab_count:
  assumes "cmd_key \<in> set [''DELETE_POSIX'', ''DELETE_WIN'', ''DELETE_MAC'']"
  shows "\<exists>c'. process_command_keys cmd_key c = Inr c' \<and> tab_count c' = 0"
  using assms by (auto simp: process_command_keys_def)

text \<open>
  Claim C7 fails on the code for the keys that are not Tab. On the buffer \<open>s\<close>, which
  three entries of the built-in catalog match, a Tab raises the counter to 1; the
  character \<open>e\<close> typed next, and the left arrow, leave it at 1.
\<close>

theorem tab_count_survives_other_keys:
  "process_command_keys ''TAB'' (with_line ''s'' 1)
     = Inr ((with_line ''s'' 1)\<lparr>type_complete_mode := COMMAND_COMPLETE, tab_count := 1\<rparr>)
   \<and> read_key [Str ''e''] (Some ''TAB'') ''s''
         ((with_line ''s'' 1)\<lparr>type_complete_mode := COMMAND_COMPLETE, tab_count := 1\<rparr>)
     = Some (Inr ([], Some ''TAB'', ''se'',
         (with_line ''s'' 1)\<lparr>type_complete_mode := COMMAND_COMPLETE, tab_count := 1,
            cmd_line := \<lparr>prompt = ''> '', position = 2, command = ''se'', length_c = 2\<rparr>,
            stdout := [Write ''e'']\<rparr>))
   \<and> process_command_keys ''ARROW_LT''
         ((with_line ''s'' 1)\<lparr>type_complete_mode := COMMAND_COMPLETE, tab_count := 1\<rparr>)
     = Inr ((with_line ''s'' 1)\<lparr>type_complete_mode := COMMAND_COMPLETE, tab_count := 1,
            cmd_line := \<lparr>prompt = ''> '', position = 0, command = ''s'', length_c = 1\<rparr>,
            stdout := [Write [BS]]\<rparr>)"
  by (simp add: with_line_def init_console_def BASE_COMMANDS_def init_command_def
      process_command_keys_def set_complete_mode_def get_command_def
      do_command_tab_def do_base_command_tab_def get_commands_def edit_def add_c_def
      stdout_write_def py_slice_def py_bound_def Let_def read_key_def add_key_def
      COMMAND_KEY_def
      left_arrow_keypress_def)

text \<open>
  Claim C5 fails on the code: the \<open>break\<close> of the piped branch leaves the loop over the
  commands of one line, not the loop over the lines. After \<open>exit\<close> the rest of its line
  is skipped and the next line is executed. The first branch of \<open>run_console\<close>, for the
  same commands in one string, stops at \<open>exit\<close>.
\<close>

theorem piped_exit_ends_one_line_only:
  "run_piped record_command False
     [''exit;help'' @ [CHR 0x0A], ''show errors'' @ [CHR 0x0A]] []
     = [''exit'', ''show errors'']
   \<and> run_commands record_command False ''exit;help;show errors'' [] = [''exit'']"
  by (simp add: run_commands_def record_command_def prepare_command_def py_strip_def
      py_lower_def char_lower_def)

text \<open>The same for any \<open>_do_command\<close>: a line is executed after a line that signalled
  exit.\<close>

lemma py_split_no_sep: "c \<notin> set s \<Longrightarrow> py_split c s = [s]"
  by (induction s) auto

lemma run_piped_goes_on_after_exit:
  assumes "CHR '';'' \<notin> set l1" and "CHR '';'' \<notin> set l2"
    and "do_command (prepare_command nt l1) st = (True, st1)"
  shows "run_piped do_command nt [l1, l2] st = snd (do_command (prepare_command nt l2) st1)"
  using assms by (simp add: py_split_no_sep split: prod.splits bool.splits)

lemma do_base_command_tab_count:
  "tab_count (do_base_command_tab t ms c) = tab_count c \<or> tab_count (do_base_command_tab t ms c) = 0"
  by (simp add: do_base_command_tab_def Let_def edit_tab_count)

lemma tab_adds_one_or_resets:
  assumes "cmd_key \<notin> set [''ESCAPE'', ''DELETE_POSIX'', ''DELETE_WIN'', ''DELETE_MAC'',
             ''ARROW_UP'', ''ARROW_DN'', ''ARROW_LT'', ''ARROW_RT'',
             ''BACKSPACE_POSIX'', ''BACKSPACE_WIN'', ''HOME'', ''END'']"
    and "process_command_keys cmd_key c = Inr c'"
  shows "tab_count c' = tab_count c + 1 \<or> tab_count c' = 0"
proof -
  from assms obtain seg c1 where s: "set_complete_mode c = Inr (seg, c1)"
    by (auto simp: process_command_keys_def split: sum.splits)
  then have t1: "tab_count c1 = tab_count c"
    by (auto simp: set_complete_mode_def Let_def split: sum.splits if_splits)
  let ?c2 = "c1\<lparr>tab_count := tab_count c1 + 1\<rparr>"
  have r: "c' = do_command_tab (get_command (cmd_line ?c2)) ?c2
           \<or> c' = do_option_tab seg ?c2 \<or> do_variable_tab seg ?c2 = Inr c'"
    using assms s by (auto simp: process_command_keys_def Let_def split: if_splits)
  have a: "\<And>t. tab_count (do_command_tab t ?c2) = tab_count ?c2 \<or> tab_count (do_command_tab t ?c2) = 0"
  proof -
    fix t
    show "tab_count (do_command_tab t ?c2) = tab_count ?c2 \<or> tab_count (do_command_tab t ?c2) = 0"
      using do_base_command_tab_count [of t "get_commands t ?c2" ?c2]
      by (auto simp: do_command_tab_def do_custom_tab_def Let_def)
  qed
  have b: "tab_count (do_option_tab seg ?c2) = tab_count ?c2 \<or> tab_count (do_option_tab seg ?c2) = 0"
    using do_base_command_tab_count [of "get_command (cmd_line ?c2)"
        "get_commands (py_strip (CHR '' '') (get_command (cmd_line ?c2))) ?c2" ?c2]
    by (auto simp: do_option_tab_def do_custom_tab_def do_custom_option_tab_def Let_def
        print_line_def stdout_write_def)
  have v: "do_variable_tab seg ?c2 = Inr c' \<Longrightarrow> tab_count c' = tab_count ?c2 \<or> tab_count c' = 0"
    by (auto simp: do_variable_tab_def Let_def stdout_write_def edit_tab_count
        split: sum.splits prod.splits if_splits)
  from r a b v t1 show ?thesis by auto
qed

subsection \<open>Facts about scrolling\<close>

lemma emit_fields [simp]:
  "start_list (emit es s) = start_list s" "end_list (emit es s) = end_list s"
  "list_data (emit es s) = list_data s" "scroll_size (emit es s) = scroll_size s"
  "max_rows (emit es s) = max_rows s" "rows_printed (emit es s) = rows_printed s"
  "scroll_on (emit es s) = scroll_on s" "comment (emit es s) = comment s"
  "master_f (emit es s) = master_f s" "old_mode (emit es s) = old_mode s"
  "mode (emit es s) = mode s" "logging (emit es s) = logging s"
  "no_keyboard (emit es s) = no_keyboard s" "warnings_dic (emit es s) = warnings_dic s"
  by (simp_all add: emit_def)




lemma print_footer_fields [simp]:
  "start_list (print_footer b s) = start_list s" "end_list (print_footer b s) = end_list s"
  "list_data (print_footer b s) = list_data s" "scroll_size (print_footer b s) = scroll_size s"
  "warnings_dic (print_footer b s) = warnings_dic s"
  by (simp_all add: print_footer_def Let_def)



lemma page_capacity_window [simp]:
  "page_capacity (s\<lparr>start_list := a, end_list := b\<rparr>) = page_capacity s"
  "page_capacity (s\<lparr>start_list := a, stop_list := c\<rparr>) = page_capacity s"
  "status_available (s\<lparr>start_list := a, end_list := b\<rparr>) = status_available s"
  "status_available (s\<lparr>start_list := a, stop_list := c\<rparr>) = status_available s"
  by (simp_all add: page_capacity_def mode_changed_def status_available_def)















text \<open>
  A key as the \<open>getch()\<close> of the module returns it is in no table of the dashboard:
  \<open>_do_command\<close> reads the size of the terminal, resets the counter of the GTID lists
  and does nothing else, so that \<open>_scroll\<close> is not called.
\<close>

lemma bytes_key_is_ignored:
  "do_command_f (Bytes b) s
     = Inr (s\<lparr>max_cols := fst (terminal_size s), max_rows := snd (terminal_size s),
             gtid_list := - 1\<rparr>)"
  by (simp add: do_command_f_def COMMAND_KEYS_def Let_def)

subsection \<open>Facts about the reconnection\<close>

lemma reconnect_when_alive:
  assumes "master_f s = Some m" and "alive m"
  shows "reconnect_master pt s = (True, s)"
  using assms by (simp add: reconnect_master_def)


lemma failed_attempts_down [simp]: "failed_attempts (m\<lparr>alive := b\<rparr>) = failed_attempts m"
  by (simp add: failed_attempts_def)


lemma after_reconnect_fields [simp]:
  "report_mode (after_reconnect s m) = report_mode s"
  "warnings_dic (after_reconnect s m) = warnings_dic s"
  "terminal_size (after_reconnect s m) = terminal_size s"
  "status_available (after_reconnect s m) \<longleftrightarrow> status m \<noteq> None"
  by (simp_all add: after_reconnect_def status_available_def)




lemma status_available_kept [simp]:
  "status_available (print_header s) = status_available s"
  "status_available (clear_f s) = status_available s"
  "status_available (reset_screen_size s) = status_available s"
  by (simp_all add: status_available_def print_header_def clear_f_def reset_screen_size_def
      emit_def Let_def)









text \<open>
  In the main loop a key is handled after the health list, when that is the list shown,
  has been fetched and printed again from its first row. Two presses of the down arrow,
  given as strings, end on the second page there, and on the third page for another list.
\<close>

lemma health_list_restarts_on_every_key:
  "loop_window (display_loop [Some ARROW_DN_KEY, Some ARROW_DN_KEY, None] health_dashboard)
     = Some (10, 20)
   \<and> loop_window (display_loop [Some ARROW_DN_KEY, Some ARROW_DN_KEY, None]
        (dashboard 50 28 0 10 10)) = Some (20, 30)"
  by code_simp

end
